theory Spec2Isabelle
  imports Complex_Main
begin

section \<open>The glTF loader of Source/Scene/GltfLoader.js\<close>

text \<open>
  The loader walks a parsed glTF document, builds the scene-graph components, spawns one
  sub-loader per buffer, index buffer, buffer view, texture and metadata block, and
  registers on each sub-loader's promise a continuation that fills the component in.
  The embedding keeps the source's structure:
  \<^item> the document is a family of records with an \<open>option\<close> for each optional property;
  \<^item> components that a continuation later mutates (attributes, indices, textures, skins)
    live in stores inside the world and are referred to by their address;
  \<^item> an assembly function passes the world along and returns either a value or the
    \<open>TypeError\<close> that JavaScript raises on a property read of \<open>undefined\<close>, together
    with the world as mutated so far;
  \<^item> the promise machinery is a table of continuations that the event of a sub-loader
    settling runs, in the order of registration.
  JavaScript numbers are only copied here, never computed with, and are modelled as reals.
\<close>

subsection \<open>Values\<close>

type_synonym number = real

datatype error = TypeError

datatype AttributeType = SCALAR | VEC2 | VEC3 | VEC4 | MAT2 | MAT3 | MAT4

datatype MathType =
  Number | Cartesian2 | Cartesian3 | Cartesian4 | Matrix2 | Matrix3 | Matrix4 | Quaternion

text \<open>
  A value of a math type: a plain number, the array handed back unchanged when the math
  type is \<open>Number\<close>, or the components an \<open>unpack\<close> read (a component past the end
  of the array is \<open>undefined\<close>, here \<open>None\<close>).
\<close>

datatype MathValue =
  NumberValue number
| ArrayValue "number list"
| Unpacked MathType "number option list"

fun packedLength :: "MathType \<Rightarrow> nat" where
  "packedLength Number = 1"
| "packedLength Cartesian2 = 2"
| "packedLength Cartesian3 = 3"
| "packedLength Cartesian4 = 4"
| "packedLength Matrix2 = 4"
| "packedLength Matrix3 = 9"
| "packedLength Matrix4 = 16"
| "packedLength Quaternion = 4"

definition element :: "'a list \<Rightarrow> nat \<Rightarrow> 'a option" where
  "element xs i = (if i < length xs then Some (xs ! i) else None)"

text \<open>
  Modelled from the spec: the math classes of Source/Core are not under src/. Their
  \<open>unpack(array, startingIndex)\<close> reads \<open>packedLength\<close> consecutive entries, their
  constructor without arguments gives zero components, and \<open>Matrix4.IDENTITY\<close> is the
  column-major identity.
\<close>

definition unpack :: "MathType \<Rightarrow> number list \<Rightarrow> nat \<Rightarrow> MathValue" where
  "unpack T values startingIndex =
     Unpacked T (map (\<lambda>k. element values (startingIndex + k)) [0..<packedLength T])"

definition Matrix4_IDENTITY :: MathValue where
  "Matrix4_IDENTITY =
     Unpacked Matrix4 (map (\<lambda>k. Some (if k mod 5 = 0 then 1 else 0)) [0..<16])"

fun getMathType :: "AttributeType \<Rightarrow> MathType" where
  "getMathType SCALAR = Number"
| "getMathType VEC2 = Cartesian2"
| "getMathType VEC3 = Cartesian3"
| "getMathType VEC4 = Cartesian4"
| "getMathType MAT2 = Matrix2"
| "getMathType MAT3 = Matrix3"
| "getMathType MAT4 = Matrix4"

definition fromArray :: "MathType \<Rightarrow> number list option \<Rightarrow> MathValue option" where
  "fromArray T values =
     (case values of
        None \<Rightarrow> None
      | Some vs \<Rightarrow> if T = Number then Some (ArrayValue vs) else Some (unpack T vs 0))"

definition getDefault :: "MathType \<Rightarrow> MathValue" where
  "getDefault T =
     (if T = Number then NumberValue 0
      else Unpacked T (replicate (packedLength T) (Some 0)))"

definition defaultValue :: "'a option \<Rightarrow> 'a option \<Rightarrow> 'a option" where
  "defaultValue a b = (case a of Some x \<Rightarrow> Some x | None \<Rightarrow> b)"

subsection \<open>The glTF document\<close>

record Accessor =
  acc_bufferView :: "nat option"
  acc_byteOffset :: "nat option"
  acc_componentType :: nat
  acc_normalized :: "bool option"
  acc_count :: nat
  acc_type :: AttributeType
  acc_min :: "number list option"
  acc_max :: "number list option"

record TextureInfo =
  ti_index :: "nat option"
  ti_texCoord :: "nat option"

record GltfMetallicRoughness =
  gmr_baseColorTexture :: "TextureInfo option"
  gmr_metallicRoughnessTexture :: "TextureInfo option"
  gmr_baseColorFactor :: "number list option"
  gmr_metallicFactor :: "number option"
  gmr_roughnessFactor :: "number option"

record GltfSpecularGlossiness =
  gsg_diffuseTexture :: "TextureInfo option"
  gsg_specularGlossinessTexture :: "TextureInfo option"
  gsg_diffuseFactor :: "number list option"
  gsg_specularFactor :: "number list option"
  gsg_glossinessFactor :: "number option"

record GltfMaterialExtensions =
  KHR_materials_pbrSpecularGlossiness :: "GltfSpecularGlossiness option"

record GltfMaterial =
  gm_pbrMetallicRoughness :: "GltfMetallicRoughness option"
  gm_extensions :: "GltfMaterialExtensions option"
  gm_emissiveTexture :: "TextureInfo option"
  gm_normalTexture :: "TextureInfo option"
  gm_occlusionTexture :: "TextureInfo option"
  gm_emissiveFactor :: "number list option"
  gm_alphaMode :: "string option"
  gm_alphaCutoff :: "number option"
  gm_doubleSided :: "bool option"

text \<open>A JavaScript object iterated with \<open>for .. in\<close> is an association list, in key order.\<close>

record Draco =
  draco_bufferView :: nat
  draco_attributes :: "(string \<times> nat) list option"

record GltfFeatureIds =
  fi_attribute :: "string option"
  fi_constant :: "number option"
  fi_divisor :: "number option"
  fi_texture :: "TextureInfo option"
  fi_channels :: "string option"

record GltfFeatureId =
  gfi_featureTable :: "string option"
  gfi_featureIds :: "GltfFeatureIds option"

record GltfFeatureMetadata =
  gfm_featureIdAttributes :: "GltfFeatureId list option"
  gfm_featureIdTextures :: "GltfFeatureId list option"
  gfm_featureTextures :: "string list option"

record GltfPrimitiveExtensions =
  KHR_draco_mesh_compression :: "Draco option"
  prim_EXT_feature_metadata :: "GltfFeatureMetadata option"

record GltfPrimitive =
  gp_material :: "nat option"
  gp_extensions :: "GltfPrimitiveExtensions option"
  gp_attributes :: "(string \<times> nat) list option"
  gp_targets :: "(string \<times> nat) list list option"
  gp_indices :: "nat option"
  gp_mode :: "nat option"

record GltfMesh =
  gmesh_primitives :: "GltfPrimitive list"
  gmesh_weights :: "number list option"

record GltfInstancingExtensions =
  inst_EXT_feature_metadata :: "GltfFeatureMetadata option"

record GltfInstancing =
  gi_attributes :: "(string \<times> nat) list option"
  gi_extensions :: "GltfInstancingExtensions option"

record GltfNodeExtensions =
  EXT_mesh_gpu_instancing :: "GltfInstancing option"

record GltfNode =
  gn_matrix :: "number list option"
  gn_translation :: "number list option"
  gn_rotation :: "number list option"
  gn_scale :: "number list option"
  gn_mesh :: "nat option"
  gn_weights :: "number list option"
  gn_children :: "nat list option"
  gn_skin :: "nat option"
  gn_extensions :: "GltfNodeExtensions option"

record GltfSkin =
  gs_joints :: "nat list"
  gs_inverseBindMatrices :: "nat option"

record GltfScene =
  gsc_nodes :: "nat list option"

text \<open>The payload of the document's metadata extension is opaque to this loader.\<close>

record GltfExtensions =
  EXT_feature_metadata :: "nat option"

record Gltf =
  accessors :: "Accessor list"
  materials :: "GltfMaterial list"
  meshes :: "GltfMesh list"
  gltf_nodes :: "GltfNode list option"
  skins :: "GltfSkin list"
  gltf_scenes :: "GltfScene list option"
  gltf_scene :: "nat option"
  gltf_extensions :: "GltfExtensions option"

subsection \<open>The components (Source/Scene/ModelComponents.js)\<close>

text \<open>
  Modelled from the spec: ModelComponents.js is not under src/. Section 3 of the
  specification lists the fields of each component; a constructor leaves every optional
  field \<open>undefined\<close> and every list empty, which is what the source relies on when it
  pushes onto \<open>primitive.attributes\<close> or \<open>node.children\<close> of a new object. A field that
  holds a component which a continuation mutates later holds its address in the store.
\<close>

record Quantization =
  q_componentDatatype :: nat
  q_octEncoded :: bool
  q_normalizationRange :: "number option"

record Attribute =
  attr_semantic :: "string option"
  attr_constant :: "MathValue option"
  attr_componentDatatype :: "nat option"
  attr_normalized :: "bool option"
  attr_count :: "nat option"
  attr_type :: "AttributeType option"
  attr_min :: "MathValue option"
  attr_max :: "MathValue option"
  attr_byteOffset :: "nat option"
  attr_byteStride :: "nat option"
  attr_buffer :: "nat option"
  attr_quantization :: "Quantization option"
  attr_typedArray :: "number list option"

definition Attribute_new :: Attribute where
  "Attribute_new =
     \<lparr>attr_semantic = None, attr_constant = None, attr_componentDatatype = None,
      attr_normalized = None, attr_count = None, attr_type = None, attr_min = None,
      attr_max = None, attr_byteOffset = None, attr_byteStride = None, attr_buffer = None,
      attr_quantization = None, attr_typedArray = None\<rparr>"

record Indices =
  ind_indexDatatype :: "nat option"
  ind_count :: "nat option"
  ind_buffer :: "nat option"

definition Indices_new :: Indices where
  "Indices_new = \<lparr>ind_indexDatatype = None, ind_count = None, ind_buffer = None\<rparr>"

record Sampler =
  wrapS :: nat
  wrapT :: nat
  minificationFilter :: nat
  magnificationFilter :: nat

text \<open>
  Modelled from the spec: Renderer/Sampler.js is not under src/; \<open>Sampler.NEAREST\<close> is
  the nearest-neighbour sampler (clamp to edge 33071, nearest 9728).
\<close>

definition Sampler_NEAREST :: Sampler where
  "Sampler_NEAREST =
     \<lparr>wrapS = 33071, wrapT = 33071, minificationFilter = 9728, magnificationFilter = 9728\<rparr>"

record Texture =
  tex_texCoord :: "nat option"
  tex_sampler :: "Sampler option"
  tex_texture :: "nat option"

definition Texture_new :: Texture where
  "Texture_new = \<lparr>tex_texCoord = None, tex_sampler = None, tex_texture = None\<rparr>"

record Skin =
  skin_joints :: "nat option list option"
  skin_inverseBindMatrices :: "MathValue list option"

definition Skin_new :: Skin where
  "Skin_new = \<lparr>skin_joints = None, skin_inverseBindMatrices = None\<rparr>"

record MetallicRoughness =
  mr_baseColorTexture :: "nat option"
  mr_metallicRoughnessTexture :: "nat option"
  mr_baseColorFactor :: "MathValue option"
  mr_metallicFactor :: "number option"
  mr_roughnessFactor :: "number option"

definition MetallicRoughness_new :: MetallicRoughness where
  "MetallicRoughness_new =
     \<lparr>mr_baseColorTexture = None, mr_metallicRoughnessTexture = None,
      mr_baseColorFactor = None, mr_metallicFactor = None, mr_roughnessFactor = None\<rparr>"

record SpecularGlossiness =
  sg_diffuseTexture :: "nat option"
  sg_specularGlossinessTexture :: "nat option"
  sg_diffuseFactor :: "MathValue option"
  sg_specularFactor :: "MathValue option"
  sg_glossinessFactor :: "number option"

definition SpecularGlossiness_new :: SpecularGlossiness where
  "SpecularGlossiness_new =
     \<lparr>sg_diffuseTexture = None, sg_specularGlossinessTexture = None,
      sg_diffuseFactor = None, sg_specularFactor = None, sg_glossinessFactor = None\<rparr>"

record Material =
  mat_metallicRoughness :: "MetallicRoughness option"
  mat_specularGlossiness :: "SpecularGlossiness option"
  mat_emissiveTexture :: "nat option"
  mat_normalTexture :: "nat option"
  mat_occlusionTexture :: "nat option"
  mat_emissiveFactor :: "MathValue option"
  mat_alphaMode :: "string option"
  mat_alphaCutoff :: "number option"
  mat_doubleSided :: "bool option"

definition Material_new :: Material where
  "Material_new =
     \<lparr>mat_metallicRoughness = None, mat_specularGlossiness = None,
      mat_emissiveTexture = None, mat_normalTexture = None, mat_occlusionTexture = None,
      mat_emissiveFactor = None, mat_alphaMode = None, mat_alphaCutoff = None,
      mat_doubleSided = None\<rparr>"

record FeatureIdAttribute =
  fia_featureTableId :: "string option"
  fia_semantic :: "string option"
  fia_constant :: "number option"
  fia_divisor :: "number option"

definition FeatureIdAttribute_new :: FeatureIdAttribute where
  "FeatureIdAttribute_new =
     \<lparr>fia_featureTableId = None, fia_semantic = None, fia_constant = None,
      fia_divisor = None\<rparr>"

record FeatureIdTexture =
  fit_featureTableId :: "string option"
  fit_channel :: "string option"
  fit_texture :: "nat option"

definition FeatureIdTexture_new :: FeatureIdTexture where
  "FeatureIdTexture_new =
     \<lparr>fit_featureTableId = None, fit_channel = None, fit_texture = None\<rparr>"

record MorphTarget =
  mt_attributes :: "nat list"

definition MorphTarget_new :: MorphTarget where
  "MorphTarget_new = \<lparr>mt_attributes = []\<rparr>"

record Primitive =
  prim_attributes :: "nat list"
  prim_morphTargets :: "MorphTarget list"
  prim_morphWeights :: "number list option"
  prim_indices :: "nat option"
  prim_material :: "Material option"
  prim_primitiveType :: "nat option"
  prim_featureIdAttributes :: "FeatureIdAttribute list"
  prim_featureIdTextures :: "FeatureIdTexture list"
  prim_featureTexturesIds :: "string list option"

definition Primitive_new :: Primitive where
  "Primitive_new =
     \<lparr>prim_attributes = [], prim_morphTargets = [], prim_morphWeights = None,
      prim_indices = None, prim_material = None, prim_primitiveType = None,
      prim_featureIdAttributes = [], prim_featureIdTextures = [],
      prim_featureTexturesIds = None\<rparr>"

record Instances =
  inst_attributes :: "nat list"
  inst_featureIdAttributes :: "FeatureIdAttribute list"

definition Instances_new :: Instances where
  "Instances_new = \<lparr>inst_attributes = [], inst_featureIdAttributes = []\<rparr>"

text \<open>
  A node refers to its children and a skin to its joints by their index in the node table
  that \<open>loadNodes\<close> builds (\<open>None\<close> for the \<open>undefined\<close> that an index outside the table
  reads), so a node reached twice is one object.
\<close>

record Node =
  node_matrix :: "MathValue option"
  node_translation :: "MathValue option"
  node_rotation :: "MathValue option"
  node_scale :: "MathValue option"
  node_children :: "nat option list"
  node_primitives :: "Primitive list"
  node_skin :: "nat option"
  node_instances :: "Instances option"

definition Node_new :: Node where
  "Node_new =
     \<lparr>node_matrix = None, node_translation = None, node_rotation = None, node_scale = None,
      node_children = [], node_primitives = [], node_skin = None, node_instances = None\<rparr>"

record Scene =
  scene_nodes :: "nat option list"

record Components =
  comp_scene :: "Scene option"
  comp_nodes :: "Node list option"
  comp_featureMetadata :: "nat option"

definition Components_new :: Components where
  "Components_new = \<lparr>comp_scene = None, comp_nodes = None, comp_featureMetadata = None\<rparr>"

subsection \<open>The loader, its sub-loaders and the world\<close>

datatype ResourceLoaderState = UNLOADED | LOADING | PROCESSING | READY | FAILED

text \<open>
  Modelled from the spec: ResourceLoader.js is not under src/. Its \<open>getError\<close> builds
  the top-level error that carries the message and wraps the originating cause (section 7);
  the cause is the value the failed promise was rejected with, which may be \<open>undefined\<close>.
\<close>

datatype LoadError = Cause string | RuntimeError string "LoadError option"

definition getError :: "string \<Rightarrow> LoadError option \<Rightarrow> LoadError" where
  "getError errorMessage error = RuntimeError errorMessage error"

datatype PublicPromise = PromisePending | PromiseResolved | PromiseRejected LoadError

datatype Status = Pending | Resolved | Rejected "LoadError option"

text \<open>What the loader asked the resource cache for when it spawned a sub-loader.\<close>

datatype LoaderRequest =
  VertexBufferRequest "nat option" "Draco option" string
| IndexBufferRequest nat "Draco option"
| BufferViewRequest nat
| TextureRequest TextureInfo
| FeatureMetadataRequest nat

type_synonym TypedArray = "nat list"

text \<open>
  A resolved sub-loader is handed to the continuation, which reads the output field of its
  kind; a field the loader does not have reads \<open>undefined\<close>.
\<close>

record LoaderOutput =
  out_vertexBuffer :: "nat option"
  out_quantization :: "Quantization option"
  out_indexBuffer :: "nat option"
  out_typedArray :: "TypedArray option"
  out_texture :: "nat option"
  out_featureMetadata :: "nat option"

text \<open>
  The continuations the source registers with \<open>promise.then\<close>, each with the variables
  its closure captures: the address of the component it fills in, and for a vertex
  attribute the Draco extension and the semantic.
\<close>

datatype Continuation =
  VertexAttributeThen nat "Draco option" string
| InstancedBufferThen nat
| InstancedTypedArrayThen nat Accessor
| IndicesThen nat
| TextureThen nat
| SkinThen nat Accessor nat
| FeatureMetadataThen

datatype Effect =
  UnloadGltfJson
| UnloadLoader nat
| PromiseResolve
| PromiseReject LoadError

record JsonLoader =
  jl_gltf :: "Gltf option"

text \<open>
  The world: the fields of the GltfLoader object (\<open>state\<close> to \<open>destroyed\<close>), the
  promise machinery (the table of spawned sub-loaders, whose index is the sub-loader's
  handle, the continuations registered on them, the handles \<open>when.all\<close> gathered and
  whether it has settled, the state of the document promise), the component stores, and
  the log of the effects on the resource cache and on the public promise, in order.
\<close>

record World =
  state :: ResourceLoaderState
  gltfJsonLoader :: "JsonLoader option"
  loaders :: "nat list"
  loader_components :: "Components option"
  promise :: PublicPromise
  destroyed :: bool
  subs :: "(LoaderRequest \<times> Status) list"
  conts :: "(nat \<times> Continuation) list"
  aggregate :: "nat list option"
  aggregate_settled :: bool
  json_status :: "Status option"
  supportsWebP_initialized :: bool
  attributes :: "Attribute list"
  indicesStore :: "Indices list"
  textures :: "Texture list"
  skinStore :: "Skin list"
  effects :: "Effect list"

text \<open>
  Modelled from the spec: GltfLoaderUtil, the GltfPipeline helpers, FeatureDetection and the
  frame state's context are not under src/. What the loader reads from them is a
  parameter: the byte stride of an accessor, the image a texture selects under the
  supported image formats (none when no format fits), the sampler of a texture, and
  whether the context supports instanced arrays. \<open>parse\<close> calls \<open>then\<close> on the metadata
  loader itself, not on its promise as everywhere else; whether a
  GltfFeatureMetadataLoader (not under src/) has that method is a parameter as well, and
  the call raises TypeError when it has not.

  One field stands for code that is under src/: \<open>getAccessorTypedArray\<close> (source lines
  280 to 315). That function copies the bytes of a buffer view into a typed array of the
  accessor's component type, element by element when the view is strided. It is not
  embedded line by line here: byte buffers, their layout and the decoding of floats
  have no counterpart in this theory, so the field only gives, for the accessor and the
  buffer view's bytes, the numbers the function returns.
\<close>

record Platform =
  getAccessorByteStride :: "Gltf \<Rightarrow> Accessor \<Rightarrow> nat"
  getImageIdFromTexture :: "Gltf \<Rightarrow> nat option \<Rightarrow> nat option"
  createSampler :: "Gltf \<Rightarrow> TextureInfo \<Rightarrow> Sampler"
  instancedArrays :: bool
  getAccessorTypedArray :: "Accessor \<Rightarrow> TypedArray \<Rightarrow> number list"
  featureMetadataLoaderThenable :: bool

subsection \<open>Assembly functions: state passing with errors\<close>

type_synonym 'a assembly = "World \<Rightarrow> (error + 'a) \<times> World"

definition returnA :: "'a \<Rightarrow> 'a assembly" where
  "returnA x w = (Inr x, w)"

definition throwA :: "error \<Rightarrow> 'a assembly" where
  "throwA e w = (Inl e, w)"

definition bindA :: "'a assembly \<Rightarrow> ('a \<Rightarrow> 'b assembly) \<Rightarrow> 'b assembly" where
  "bindA m f w = (case m w of (Inl e, w') \<Rightarrow> (Inl e, w') | (Inr x, w') \<Rightarrow> f x w')"

text \<open>
  \<open>xs[i].p\<close>: the read of a property of an array element raises TypeError when \<open>i\<close> is
  not an index of the array, since the element is \<open>undefined\<close>.
\<close>

definition lookup :: "'a list \<Rightarrow> nat \<Rightarrow> 'a assembly" where
  "lookup xs i = (if i < length xs then returnA (xs ! i) else throwA TypeError)"

definition required :: "'a option \<Rightarrow> 'a assembly" where
  "required x = (case x of None \<Rightarrow> throwA TypeError | Some v \<Rightarrow> returnA v)"

text \<open>A loop over a list, left to right, collecting what each iteration pushes.\<close>

fun forEach :: "('a \<Rightarrow> 'b assembly) \<Rightarrow> 'a list \<Rightarrow> 'b list assembly" where
  "forEach f [] = returnA []"
| "forEach f (x # xs) =
     bindA (f x) (\<lambda>y. bindA (forEach f xs) (\<lambda>ys. returnA (y # ys)))"

text \<open>
  The values \<open>i\<close> takes in \<open>for (i = 0; i < bound; ++i)\<close>. A comparison with
  \<open>undefined\<close> is false, so the loop body never runs when the bound is \<open>undefined\<close>.
\<close>

definition indicesBelow :: "nat option \<Rightarrow> nat list" where
  "indicesBelow bound = (case bound of None \<Rightarrow> [] | Some n \<Rightarrow> [0..<n])"

text \<open>
  Modelled from the spec: ResourceCache.js is not under src/. A request to the cache
  gives a sub-loader whose promise is pending; the loader pushes it on \<open>_loaders\<close>.
  Every request gives a sub-loader of its own. A cache that hands back an entry shared
  with an earlier request, or one whose promise has already settled, is not modelled.
\<close>

definition spawn :: "LoaderRequest \<Rightarrow> nat assembly" where
  "spawn req w =
     (Inr (length (subs w)),
      w\<lparr>loaders := loaders w @ [length (subs w)], subs := subs w @ [(req, Pending)]\<rparr>)"

text \<open>\<open>loader.promise.then(c)\<close>: the continuation \<open>c\<close> is registered on sub-loader \<open>h\<close>.\<close>

definition register :: "nat \<Rightarrow> Continuation \<Rightarrow> unit assembly" where
  "register h c w = (Inr (), w\<lparr>conts := conts w @ [(h, c)]\<rparr>)"

text \<open>
  A new component that a continuation will fill in gets the next address of its store;
  an assignment to a field of such a component updates the store at its address.
\<close>

definition allocAttribute :: "Attribute \<Rightarrow> nat assembly" where
  "allocAttribute attribute w =
     (Inr (length (attributes w)), w\<lparr>attributes := attributes w @ [attribute]\<rparr>)"

definition allocIndices :: "Indices \<Rightarrow> nat assembly" where
  "allocIndices indices w =
     (Inr (length (indicesStore w)), w\<lparr>indicesStore := indicesStore w @ [indices]\<rparr>)"

definition allocTexture :: "Texture \<Rightarrow> nat assembly" where
  "allocTexture texture w =
     (Inr (length (textures w)), w\<lparr>textures := textures w @ [texture]\<rparr>)"

definition allocSkin :: "Skin \<Rightarrow> nat assembly" where
  "allocSkin skin w =
     (Inr (length (skinStore w)), w\<lparr>skinStore := skinStore w @ [skin]\<rparr>)"

definition readTexture :: "nat \<Rightarrow> Texture assembly" where
  "readTexture texture w = lookup (textures w) texture w"

definition setSampler :: "nat \<Rightarrow> Sampler \<Rightarrow> unit assembly" where
  "setSampler texture sampler w =
     (Inr (), w\<lparr>textures := (textures w)
                 [texture := (textures w ! texture)\<lparr>tex_sampler := Some sampler\<rparr>]\<rparr>)"

definition setInverseBindMatrices :: "nat \<Rightarrow> MathValue list \<Rightarrow> unit assembly" where
  "setInverseBindMatrices skin matrices w =
     (Inr (), w\<lparr>skinStore := (skinStore w)
                 [skin := (skinStore w ! skin)\<lparr>skin_inverseBindMatrices := Some matrices\<rparr>]\<rparr>)"

definition loadVertexBuffer ::
  "Gltf \<Rightarrow> nat \<Rightarrow> string \<Rightarrow> Draco option \<Rightarrow> nat assembly" where
  "loadVertexBuffer gltf accessorId semantic draco =
     bindA (lookup (accessors gltf) accessorId) (\<lambda>accessor.
       spawn (VertexBufferRequest (acc_bufferView accessor) draco semantic))"

definition loadIndexBuffer :: "Gltf \<Rightarrow> nat \<Rightarrow> Draco option \<Rightarrow> nat option assembly" where
  "loadIndexBuffer gltf accessorId draco =
     bindA (lookup (accessors gltf) accessorId) (\<lambda>accessor.
       if draco = None \<and> acc_bufferView accessor = None then returnA None
       else bindA (spawn (IndexBufferRequest accessorId draco)) (\<lambda>indexBufferLoader.
              returnA (Some indexBufferLoader)))"

definition loadBufferView :: "nat \<Rightarrow> nat assembly" where
  "loadBufferView bufferViewId = spawn (BufferViewRequest bufferViewId)"

definition createAttribute :: "Platform \<Rightarrow> Gltf \<Rightarrow> nat \<Rightarrow> string \<Rightarrow> Attribute assembly" where
  "createAttribute P gltf accessorId semantic =
     bindA (lookup (accessors gltf) accessorId) (\<lambda>accessor.
       let MathType = getMathType (acc_type accessor) in
       returnA (Attribute_new
         \<lparr>attr_semantic := Some semantic,
          attr_constant := Some (getDefault MathType),
          attr_componentDatatype := Some (acc_componentType accessor),
          attr_normalized := acc_normalized accessor,
          attr_count := Some (acc_count accessor),
          attr_type := Some (acc_type accessor),
          attr_min := fromArray MathType (acc_min accessor),
          attr_max := fromArray MathType (acc_max accessor),
          attr_byteOffset := acc_byteOffset accessor,
          attr_byteStride := Some (getAccessorByteStride P gltf accessor)\<rparr>))"

definition loadVertexAttribute ::
  "Platform \<Rightarrow> Gltf \<Rightarrow> nat \<Rightarrow> string \<Rightarrow> Draco option \<Rightarrow> nat assembly" where
  "loadVertexAttribute P gltf accessorId semantic draco =
     bindA (lookup (accessors gltf) accessorId) (\<lambda>accessor.
     bindA (createAttribute P gltf accessorId semantic) (\<lambda>created.
     bindA (allocAttribute created) (\<lambda>attribute.
       if draco = None \<and> acc_bufferView accessor = None then returnA attribute
       else
         bindA (loadVertexBuffer gltf accessorId semantic draco) (\<lambda>vertexBufferLoader.
         bindA (register vertexBufferLoader (VertexAttributeThen attribute draco semantic))
           (\<lambda>_. returnA attribute)))))"

definition loadInstancedAttribute ::
  "Platform \<Rightarrow> Gltf \<Rightarrow> nat \<Rightarrow> string \<Rightarrow> nat assembly" where
  "loadInstancedAttribute P gltf accessorId semantic =
     bindA (lookup (accessors gltf) accessorId) (\<lambda>accessor.
     bindA (createAttribute P gltf accessorId semantic) (\<lambda>created.
     bindA (allocAttribute created) (\<lambda>attribute.
       case acc_bufferView accessor of
         None \<Rightarrow> returnA attribute
       | Some bufferViewId \<Rightarrow>
           if instancedArrays P then
             bindA (loadVertexBuffer gltf accessorId semantic None) (\<lambda>vertexBufferLoader.
             bindA (register vertexBufferLoader (InstancedBufferThen attribute))
               (\<lambda>_. returnA attribute))
           else
             bindA (loadBufferView bufferViewId) (\<lambda>bufferViewLoader.
             bindA (register bufferViewLoader (InstancedTypedArrayThen attribute accessor))
               (\<lambda>_. returnA attribute)))))"

definition loadIndices :: "Gltf \<Rightarrow> nat \<Rightarrow> Draco option \<Rightarrow> nat option assembly" where
  "loadIndices gltf accessorId draco =
     bindA (lookup (accessors gltf) accessorId) (\<lambda>accessor.
       if draco = None \<and> acc_bufferView accessor = None then returnA None
       else
         bindA (allocIndices (Indices_new
                  \<lparr>ind_indexDatatype := Some (acc_componentType accessor),
                   ind_count := Some (acc_count accessor)\<rparr>)) (\<lambda>indices.
         bindA (loadIndexBuffer gltf accessorId draco) (\<lambda>loaded.
         bindA (required loaded) (\<lambda>indexBufferLoader.
         bindA (register indexBufferLoader (IndicesThen indices)) (\<lambda>_.
           returnA (Some indices))))))"

definition loadTexture :: "Platform \<Rightarrow> Gltf \<Rightarrow> TextureInfo \<Rightarrow> nat option assembly" where
  "loadTexture P gltf textureInfo =
     (case getImageIdFromTexture P gltf (ti_index textureInfo) of
        None \<Rightarrow> returnA None
      | Some imageId \<Rightarrow>
          bindA (spawn (TextureRequest textureInfo)) (\<lambda>textureLoader.
          bindA (allocTexture (Texture_new
                   \<lparr>tex_texCoord := ti_texCoord textureInfo,
                    tex_sampler := Some (createSampler P gltf textureInfo)\<rparr>)) (\<lambda>texture.
          bindA (register textureLoader (TextureThen texture)) (\<lambda>_.
            returnA (Some texture)))))"

text \<open>
  \<open>loadMaterial\<close> tests \<open>material.extensions\<close> and \<open>material.emissiveTexture\<close>,
  \<open>material.normalTexture\<close>, \<open>material.occlusionTexture\<close>: properties of the Material it
  has just constructed, not of the document's material. A Material component has no
  \<open>extensions\<close> property, so that read is \<open>undefined\<close>; a texture slot that held a
  Texture component would be handed to \<open>loadTexture\<close> as the texture info, whose
  \<open>index\<close> it does not have.
\<close>

definition Material_extensions :: "Material \<Rightarrow> GltfMaterialExtensions option" where
  "Material_extensions material = None"

definition componentAsTextureInfo :: "nat \<Rightarrow> TextureInfo assembly" where
  "componentAsTextureInfo texture =
     bindA (readTexture texture) (\<lambda>t.
       returnA \<lparr>ti_index = None, ti_texCoord = tex_texCoord t\<rparr>)"

text \<open>Source lines 583 to 609, the body of \<open>if (defined(pbrMetallicRoughness))\<close>.\<close>

definition loadMetallicRoughness ::
  "Platform \<Rightarrow> Gltf \<Rightarrow> GltfMetallicRoughness \<Rightarrow> MetallicRoughness assembly" where
  "loadMetallicRoughness P gltf pbrMetallicRoughness =
     (let metallicRoughness = MetallicRoughness_new in
      bindA (case gmr_baseColorTexture pbrMetallicRoughness of
               None \<Rightarrow> returnA metallicRoughness
             | Some textureInfo \<Rightarrow>
                 bindA (loadTexture P gltf textureInfo) (\<lambda>t.
                   returnA (metallicRoughness\<lparr>mr_baseColorTexture := t\<rparr>)))
        (\<lambda>metallicRoughness.
      bindA (case gmr_metallicRoughnessTexture pbrMetallicRoughness of
               None \<Rightarrow> returnA metallicRoughness
             | Some textureInfo \<Rightarrow>
                 bindA (loadTexture P gltf textureInfo) (\<lambda>t.
                   returnA (metallicRoughness\<lparr>mr_metallicRoughnessTexture := t\<rparr>)))
        (\<lambda>metallicRoughness.
      returnA (metallicRoughness
        \<lparr>mr_baseColorFactor :=
           fromArray Cartesian4 (gmr_baseColorFactor pbrMetallicRoughness),
         mr_metallicFactor := gmr_metallicFactor pbrMetallicRoughness,
         mr_roughnessFactor := gmr_roughnessFactor pbrMetallicRoughness\<rparr>))))"

text \<open>Source lines 615 to 647, the body of \<open>if (defined(pbrSpecularGlossiness))\<close>.\<close>

definition loadSpecularGlossiness ::
  "Platform \<Rightarrow> Gltf \<Rightarrow> GltfSpecularGlossiness \<Rightarrow> SpecularGlossiness assembly" where
  "loadSpecularGlossiness P gltf pbrSpecularGlossiness =
     (let specularGlossiness = SpecularGlossiness_new in
      bindA (case gsg_diffuseTexture pbrSpecularGlossiness of
               None \<Rightarrow> returnA specularGlossiness
             | Some textureInfo \<Rightarrow>
                 bindA (loadTexture P gltf textureInfo) (\<lambda>t.
                   returnA (specularGlossiness\<lparr>sg_diffuseTexture := t\<rparr>)))
        (\<lambda>specularGlossiness.
      bindA (case gsg_specularGlossinessTexture pbrSpecularGlossiness of
               None \<Rightarrow> returnA specularGlossiness
             | Some textureInfo \<Rightarrow>
                 bindA (loadTexture P gltf textureInfo) (\<lambda>t.
                   returnA (specularGlossiness\<lparr>sg_specularGlossinessTexture := t\<rparr>)))
        (\<lambda>specularGlossiness.
      returnA (specularGlossiness
        \<lparr>sg_diffuseFactor := fromArray Cartesian4 (gsg_diffuseFactor pbrSpecularGlossiness),
         sg_specularFactor := fromArray Cartesian3 (gsg_specularFactor pbrSpecularGlossiness),
         sg_glossinessFactor := gsg_glossinessFactor pbrSpecularGlossiness\<rparr>))))"

text \<open>
  \<open>loadMaterial\<close>, source lines 578 to 681, block by block: the specular glossiness
  extension (611 to 648) and the three top-level textures (651 to 674), each of which
  tests the new Material.
\<close>

definition materialSpecularGlossiness ::
  "Platform \<Rightarrow> Gltf \<Rightarrow> Material \<Rightarrow> Material assembly" where
  "materialSpecularGlossiness P gltf material =
     (case Material_extensions material of
        None \<Rightarrow> returnA material
      | Some material_extensions \<Rightarrow>
          (case KHR_materials_pbrSpecularGlossiness material_extensions of
             None \<Rightarrow> returnA material
           | Some pbrSpecularGlossiness \<Rightarrow>
               bindA (loadSpecularGlossiness P gltf pbrSpecularGlossiness)
                 (\<lambda>specularGlossiness.
                    returnA (material\<lparr>mat_specularGlossiness := Some specularGlossiness\<rparr>))))"

definition materialEmissiveTexture :: "Platform \<Rightarrow> Gltf \<Rightarrow> Material \<Rightarrow> Material assembly" where
  "materialEmissiveTexture P gltf material =
     (case mat_emissiveTexture material of
        None \<Rightarrow> returnA material
      | Some emissiveTexture \<Rightarrow>
          bindA (componentAsTextureInfo emissiveTexture) (\<lambda>textureInfo.
          bindA (loadTexture P gltf textureInfo) (\<lambda>t.
            returnA (material\<lparr>mat_emissiveTexture := t\<rparr>))))"

definition materialNormalTexture :: "Platform \<Rightarrow> Gltf \<Rightarrow> Material \<Rightarrow> Material assembly" where
  "materialNormalTexture P gltf material =
     (case mat_normalTexture material of
        None \<Rightarrow> returnA material
      | Some normalTexture \<Rightarrow>
          bindA (componentAsTextureInfo normalTexture) (\<lambda>textureInfo.
          bindA (loadTexture P gltf textureInfo) (\<lambda>t.
            returnA (material\<lparr>mat_normalTexture := t\<rparr>))))"

definition materialOcclusionTexture :: "Platform \<Rightarrow> Gltf \<Rightarrow> Material \<Rightarrow> Material assembly" where
  "materialOcclusionTexture P gltf material =
     (case mat_occlusionTexture material of
        None \<Rightarrow> returnA material
      | Some occlusionTexture \<Rightarrow>
          bindA (componentAsTextureInfo occlusionTexture) (\<lambda>textureInfo.
          bindA (loadTexture P gltf textureInfo) (\<lambda>t.
            returnA (material\<lparr>mat_occlusionTexture := t\<rparr>))))"

definition loadMaterial :: "Platform \<Rightarrow> Gltf \<Rightarrow> GltfMaterial \<Rightarrow> Material assembly" where
  "loadMaterial P gltf gltfMaterial =
     (let material = Material_new in
      bindA (case gm_pbrMetallicRoughness gltfMaterial of
               None \<Rightarrow> returnA material
             | Some pbrMetallicRoughness \<Rightarrow>
                 bindA (loadMetallicRoughness P gltf pbrMetallicRoughness) (\<lambda>metallicRoughness.
                   returnA (material\<lparr>mat_metallicRoughness := Some metallicRoughness\<rparr>)))
        (\<lambda>material.
      bindA (materialSpecularGlossiness P gltf material) (\<lambda>material.
      bindA (materialEmissiveTexture P gltf material) (\<lambda>material.
      bindA (materialNormalTexture P gltf material) (\<lambda>material.
      bindA (materialOcclusionTexture P gltf material) (\<lambda>material.
      returnA (material
        \<lparr>mat_emissiveFactor := fromArray Cartesian3 (gm_emissiveFactor gltfMaterial),
         mat_alphaMode := gm_alphaMode gltfMaterial,
         mat_alphaCutoff := gm_alphaCutoff gltfMaterial,
         mat_doubleSided := gm_doubleSided gltfMaterial\<rparr>)))))))"

definition loadFeatureIdAttribute :: "GltfFeatureId \<Rightarrow> FeatureIdAttribute assembly" where
  "loadFeatureIdAttribute gltfFeatureIdAttribute =
     bindA (required (gfi_featureIds gltfFeatureIdAttribute)) (\<lambda>featureIds.
       returnA (FeatureIdAttribute_new
         \<lparr>fia_featureTableId := gfi_featureTable gltfFeatureIdAttribute,
          fia_semantic := fi_attribute featureIds,
          fia_constant := fi_constant featureIds,
          fia_divisor := fi_divisor featureIds\<rparr>))"

definition loadFeatureIdTexture ::
  "Platform \<Rightarrow> Gltf \<Rightarrow> GltfFeatureId \<Rightarrow> FeatureIdTexture assembly" where
  "loadFeatureIdTexture P gltf gltfFeatureIdTexture =
     bindA (required (gfi_featureIds gltfFeatureIdTexture)) (\<lambda>featureIds.
     bindA (required (fi_texture featureIds)) (\<lambda>textureInfo.
     bindA (loadTexture P gltf textureInfo) (\<lambda>loaded.
     bindA (required loaded) (\<lambda>texture.
     bindA (setSampler texture Sampler_NEAREST) (\<lambda>_.
       returnA (FeatureIdTexture_new
         \<lparr>fit_featureTableId := gfi_featureTable gltfFeatureIdTexture,
          fit_channel := fi_channels featureIds,
          fit_texture := Some texture\<rparr>))))))"

definition loadMorphTarget ::
  "Platform \<Rightarrow> Gltf \<Rightarrow> (string \<times> nat) list \<Rightarrow> MorphTarget assembly" where
  "loadMorphTarget P gltf target =
     bindA (forEach (\<lambda>(semantic, accessorId).
              loadVertexAttribute P gltf accessorId semantic None) target)
       (\<lambda>pushed. returnA (MorphTarget_new\<lparr>mt_attributes := mt_attributes MorphTarget_new @ pushed\<rparr>))"

text \<open>
  \<open>var featureIdAttributesLength = featureIdAttributesLength;\<close> (source lines 794 and
  849): the declaration is hoisted, so the initialiser reads the variable itself before
  it has a value, and the loop bound is \<open>undefined\<close>.
\<close>

definition selfInitialised :: "nat option" where
  "selfInitialised = None"

definition loadFeatureIdAttributes :: "GltfFeatureId list \<Rightarrow> FeatureIdAttribute list assembly" where
  "loadFeatureIdAttributes featureIdAttributes =
     (let featureIdAttributesLength = selfInitialised in
      forEach (\<lambda>i. bindA (required (element featureIdAttributes i)) loadFeatureIdAttribute)
        (indicesBelow featureIdAttributesLength))"

definition loadFeatureIdTextures ::
  "Platform \<Rightarrow> Gltf \<Rightarrow> GltfFeatureId list \<Rightarrow> FeatureIdTexture list assembly" where
  "loadFeatureIdTextures P gltf featureIdTextures =
     (let featureIdTexturesLength = Some (length featureIdTextures) in
      forEach (\<lambda>i. bindA (required (element featureIdTextures i)) (loadFeatureIdTexture P gltf))
        (indicesBelow featureIdTexturesLength))"

definition loadMorphTargets ::
  "Platform \<Rightarrow> Gltf \<Rightarrow> (string \<times> nat) list list \<Rightarrow> MorphTarget list assembly" where
  "loadMorphTargets P gltf targets =
     (let targetsLength = Some (length targets) in
      forEach (\<lambda>i. bindA (required (element targets i)) (loadMorphTarget P gltf))
        (indicesBelow targetsLength))"

text \<open>
  \<open>loadPrimitive\<close>, source lines 734 to 825, block by block: the material (745 to
  753), the attributes (762 to 772), the morph targets and weights (774 to 783), the
  indices (785 to 788) and the metadata extension (790 to 820).
\<close>

definition primitiveMaterial ::
  "Platform \<Rightarrow> Gltf \<Rightarrow> GltfPrimitive \<Rightarrow> Primitive \<Rightarrow> Primitive assembly" where
  "primitiveMaterial P gltf gltfPrimitive primitive =
     (case gp_material gltfPrimitive of
        None \<Rightarrow> returnA primitive
      | Some materialId \<Rightarrow>
          bindA (lookup (materials gltf) materialId) (\<lambda>gltfMaterial.
          bindA (loadMaterial P gltf gltfMaterial) (\<lambda>material.
            returnA (primitive\<lparr>prim_material := Some material\<rparr>))))"

definition primitiveAttributes ::
  "Platform \<Rightarrow> Gltf \<Rightarrow> GltfPrimitive \<Rightarrow> Draco option \<Rightarrow> Primitive \<Rightarrow> Primitive assembly" where
  "primitiveAttributes P gltf gltfPrimitive draco primitive =
     (case gp_attributes gltfPrimitive of
        None \<Rightarrow> returnA primitive
      | Some attrs \<Rightarrow>
          bindA (forEach (\<lambda>(semantic, accessorId).
                   loadVertexAttribute P gltf accessorId semantic draco) attrs)
            (\<lambda>pushed. returnA (primitive
               \<lparr>prim_attributes := prim_attributes primitive @ pushed\<rparr>)))"

definition primitiveTargets ::
  "Platform \<Rightarrow> Gltf \<Rightarrow> GltfPrimitive \<Rightarrow> number list option \<Rightarrow> Primitive \<Rightarrow>
     Primitive assembly" where
  "primitiveTargets P gltf gltfPrimitive morphWeights primitive =
     (case gp_targets gltfPrimitive of
        None \<Rightarrow> returnA primitive
      | Some targets \<Rightarrow>
          bindA (loadMorphTargets P gltf targets) (\<lambda>pushed.
            returnA (primitive
              \<lparr>prim_morphTargets := prim_morphTargets primitive @ pushed,
               prim_morphWeights :=
                 (case morphWeights of
                    Some weights \<Rightarrow> Some weights
                  | None \<Rightarrow> Some (replicate (length targets) 0))\<rparr>)))"

definition primitiveIndices ::
  "Gltf \<Rightarrow> GltfPrimitive \<Rightarrow> Draco option \<Rightarrow> Primitive \<Rightarrow> Primitive assembly" where
  "primitiveIndices gltf gltfPrimitive draco primitive =
     (case gp_indices gltfPrimitive of
        None \<Rightarrow> returnA primitive
      | Some indices \<Rightarrow>
          bindA (loadIndices gltf indices draco) (\<lambda>loaded.
            returnA (primitive\<lparr>prim_indices := loaded\<rparr>)))"

definition primitiveFeatureMetadata ::
  "Platform \<Rightarrow> Gltf \<Rightarrow> GltfFeatureMetadata option \<Rightarrow> Primitive \<Rightarrow> Primitive assembly" where
  "primitiveFeatureMetadata P gltf featureMetadata primitive =
     (case featureMetadata of
        None \<Rightarrow> returnA primitive
      | Some featureMetadata \<Rightarrow>
          bindA (case gfm_featureIdAttributes featureMetadata of
                   None \<Rightarrow> returnA primitive
                 | Some featureIdAttributes \<Rightarrow>
                     bindA (loadFeatureIdAttributes featureIdAttributes) (\<lambda>pushed.
                       returnA (primitive
                         \<lparr>prim_featureIdAttributes :=
                            prim_featureIdAttributes primitive @ pushed\<rparr>)))
            (\<lambda>primitive.
          bindA (case gfm_featureIdTextures featureMetadata of
                   None \<Rightarrow> returnA primitive
                 | Some featureIdTextures \<Rightarrow>
                     bindA (loadFeatureIdTextures P gltf featureIdTextures) (\<lambda>pushed.
                       returnA (primitive
                         \<lparr>prim_featureIdTextures :=
                            prim_featureIdTextures primitive @ pushed\<rparr>)))
            (\<lambda>primitive.
          returnA (primitive
            \<lparr>prim_featureTexturesIds := gfm_featureTextures featureMetadata\<rparr>))))"

definition loadPrimitive ::
  "Platform \<Rightarrow> Gltf \<Rightarrow> GltfPrimitive \<Rightarrow> number list option \<Rightarrow> Primitive assembly" where
  "loadPrimitive P gltf gltfPrimitive morphWeights =
     (let primitive = Primitive_new;
          draco = (case gp_extensions gltfPrimitive of
                     None \<Rightarrow> None | Some ext \<Rightarrow> KHR_draco_mesh_compression ext);
          featureMetadata = (case gp_extensions gltfPrimitive of
                     None \<Rightarrow> None | Some ext \<Rightarrow> prim_EXT_feature_metadata ext)
      in
      bindA (primitiveMaterial P gltf gltfPrimitive primitive) (\<lambda>primitive.
      bindA (primitiveAttributes P gltf gltfPrimitive draco primitive) (\<lambda>primitive.
      bindA (primitiveTargets P gltf gltfPrimitive morphWeights primitive) (\<lambda>primitive.
      bindA (primitiveIndices gltf gltfPrimitive draco primitive) (\<lambda>primitive.
      bindA (primitiveFeatureMetadata P gltf featureMetadata primitive) (\<lambda>primitive.
      returnA (primitive\<lparr>prim_primitiveType := gp_mode gltfPrimitive\<rparr>)))))))"

definition loadInstances :: "Platform \<Rightarrow> Gltf \<Rightarrow> GltfInstancing \<Rightarrow> Instances assembly" where
  "loadInstances P gltf instancingExtension =
     (let instances = Instances_new in
      bindA (case gi_attributes instancingExtension of
               None \<Rightarrow> returnA instances
             | Some attrs \<Rightarrow>
                 bindA (forEach (\<lambda>(semantic, accessorId).
                          loadInstancedAttribute P gltf accessorId semantic) attrs)
                   (\<lambda>pushed. returnA (instances
                      \<lparr>inst_attributes := inst_attributes instances @ pushed\<rparr>)))
        (\<lambda>instances.
      let featureMetadata = (case gi_extensions instancingExtension of
                     None \<Rightarrow> None | Some ext \<Rightarrow> inst_EXT_feature_metadata ext)
      in
      case featureMetadata of
        None \<Rightarrow> returnA instances
      | Some featureMetadata \<Rightarrow>
          (case gfm_featureIdAttributes featureMetadata of
             None \<Rightarrow> returnA instances
           | Some featureIdAttributes \<Rightarrow>
               bindA (loadFeatureIdAttributes featureIdAttributes) (\<lambda>pushed.
                 returnA (instances
                   \<lparr>inst_featureIdAttributes :=
                      inst_featureIdAttributes instances @ pushed\<rparr>)))))"

text \<open>
  \<open>loadNode\<close> reads \<open>node.extensions\<close> of the Node it has just constructed, which has
  no such property.
\<close>

definition Node_extensions :: "Node \<Rightarrow> GltfNodeExtensions option" where
  "Node_extensions node = None"

definition loadNode :: "Platform \<Rightarrow> Gltf \<Rightarrow> GltfNode \<Rightarrow> Node assembly" where
  "loadNode P gltf gltfNode =
     (let node = Node_new
        \<lparr>node_matrix := fromArray Matrix4 (gn_matrix gltfNode),
         node_translation := fromArray Cartesian3 (gn_translation gltfNode),
         node_rotation := fromArray Quaternion (gn_rotation gltfNode),
         node_scale := fromArray Cartesian3 (gn_scale gltfNode)\<rparr>
      in
      bindA (case gn_mesh gltfNode of
               None \<Rightarrow> returnA node
             | Some meshId \<Rightarrow>
                 bindA (lookup (meshes gltf) meshId) (\<lambda>mesh.
                   let morphWeights = defaultValue (gn_weights gltfNode) (gmesh_weights mesh) in
                   bindA (forEach (\<lambda>gltfPrimitive.
                            loadPrimitive P gltf gltfPrimitive morphWeights)
                          (gmesh_primitives mesh))
                     (\<lambda>pushed. returnA (node
                        \<lparr>node_primitives := node_primitives node @ pushed\<rparr>))))
        (\<lambda>node.
      let instancingExtension = (case Node_extensions node of
                     None \<Rightarrow> None | Some ext \<Rightarrow> EXT_mesh_gpu_instancing ext)
      in
      case instancingExtension of
        None \<Rightarrow> returnA node
      | Some instancingExtension \<Rightarrow>
          bindA (loadInstances P gltf instancingExtension) (\<lambda>instances.
            returnA (node\<lparr>node_instances := Some instances\<rparr>))))"

text \<open>\<open>nodes[id]\<close>: the node at that index of the table, \<open>undefined\<close> outside it.\<close>

definition nodeRef :: "nat \<Rightarrow> nat \<Rightarrow> nat option" where
  "nodeRef nodesLength nodeId = (if nodeId < nodesLength then Some nodeId else None)"

text \<open>
  \<open>loadSkin\<close> reads the accessor of the inverse bind matrices from
  \<open>skin.inverseBindMatrices\<close>, a field of the Skin it has just constructed, not from
  \<open>gltfSkin\<close>. Were that field an array of matrices, it would index no accessor. The
  function has no \<open>return\<close> statement, so a call evaluates to \<open>undefined\<close>. Source
  lines 330 to 350, the body of \<open>if (defined(inverseBindMatricesAccessorId))\<close>, are
  \<open>loadInverseBindMatrices\<close>.
\<close>

definition asAccessorId :: "MathValue list \<Rightarrow> nat option" where
  "asAccessorId matrices = None"

definition loadInverseBindMatrices :: "Gltf \<Rightarrow> nat \<Rightarrow> nat \<Rightarrow> nat \<Rightarrow> unit assembly" where
  "loadInverseBindMatrices gltf inverseBindMatricesAccessorId skin jointsLength =
     bindA (lookup (accessors gltf) inverseBindMatricesAccessorId) (\<lambda>accessor.
       case acc_bufferView accessor of
         None \<Rightarrow> returnA ()
       | Some bufferViewId \<Rightarrow>
           bindA (loadBufferView bufferViewId) (\<lambda>bufferViewLoader.
             register bufferViewLoader (SkinThen skin accessor jointsLength)))"

definition loadSkin :: "Gltf \<Rightarrow> GltfSkin \<Rightarrow> nat \<Rightarrow> nat option assembly" where
  "loadSkin gltf gltfSkin nodesLength =
     (let jointIds = gs_joints gltfSkin;
          jointsLength = length jointIds;
          joints = map (nodeRef nodesLength) jointIds;
          newSkin = Skin_new\<lparr>skin_joints := Some joints\<rparr>;
          inverseBindMatricesAccessorId = skin_inverseBindMatrices newSkin
      in
      bindA (allocSkin newSkin) (\<lambda>skin.
        case inverseBindMatricesAccessorId of
          Some matrices \<Rightarrow>
            bindA (required (asAccessorId matrices)) (\<lambda>accessorId.
            bindA (loadInverseBindMatrices gltf accessorId skin jointsLength) (\<lambda>_.
              returnA None))
        | None \<Rightarrow>
            bindA (setInverseBindMatrices skin (replicate jointsLength Matrix4_IDENTITY))
              (\<lambda>_. returnA None)))"

definition loadNodes :: "Platform \<Rightarrow> Gltf \<Rightarrow> Node list assembly" where
  "loadNodes P gltf =
     bindA (required (gltf_nodes gltf)) (\<lambda>gltfNodes.
       let nodesLength = length gltfNodes in
       bindA (forEach (loadNode P gltf) gltfNodes) (\<lambda>loaded.
         let withChildren =
               map (\<lambda>(gltfNode, node).
                      case gn_children gltfNode of
                        None \<Rightarrow> node
                      | Some childrenNodeIds \<Rightarrow>
                          node\<lparr>node_children :=
                            node_children node @ map (nodeRef nodesLength) childrenNodeIds\<rparr>)
                   (zip gltfNodes loaded)
         in
         forEach (\<lambda>(gltfNode, node).
                    case gn_skin gltfNode of
                      None \<Rightarrow> returnA node
                    | Some skinId \<Rightarrow>
                        bindA (lookup (skins gltf) skinId) (\<lambda>gltfSkin.
                        bindA (loadSkin gltf gltfSkin nodesLength) (\<lambda>skin.
                          returnA (node\<lparr>node_skin := skin\<rparr>))))
           (zip gltfNodes withChildren)))"

definition loadFeatureMetadata :: "nat \<Rightarrow> nat assembly" where
  "loadFeatureMetadata extension = spawn (FeatureMetadataRequest extension)"

text \<open>
  \<open>getSceneNodeIds\<close> falls back on \<open>gltf.nodes\<close>, the node objects themselves, when the
  scene lists no nodes; such an object indexes nothing in the node table.
\<close>

datatype SceneNodeId = NodeIndex nat | NodeObject GltfNode

definition getSceneNodeIds :: "Gltf \<Rightarrow> SceneNodeId list assembly" where
  "getSceneNodeIds gltf =
     bindA (case (gltf_scenes gltf, gltf_scene gltf) of
              (Some gltfScenes, Some sceneId) \<Rightarrow>
                bindA (lookup gltfScenes sceneId) (\<lambda>gltfScene.
                  returnA (map_option (map NodeIndex) (gsc_nodes gltfScene)))
            | _ \<Rightarrow> returnA None)
       (\<lambda>nodesIds.
          let nodesIds = defaultValue nodesIds (map_option (map NodeObject) (gltf_nodes gltf)) in
          returnA (case nodesIds of Some ids \<Rightarrow> ids | None \<Rightarrow> []))"

definition loadScene :: "Gltf \<Rightarrow> Node list \<Rightarrow> Scene assembly" where
  "loadScene gltf nodes =
     bindA (getSceneNodeIds gltf) (\<lambda>sceneNodeIds.
       returnA \<lparr>scene_nodes =
         map (\<lambda>sceneNodeId.
                case sceneNodeId of
                  NodeIndex i \<Rightarrow> nodeRef (length nodes) i
                | NodeObject _ \<Rightarrow> None)
             sceneNodeIds\<rparr>)"

subsection \<open>Unload, failure and completion\<close>

definition unload :: "World \<Rightarrow> World" where
  "unload w =
     (let w1 = (if gltfJsonLoader w \<noteq> None
                then w\<lparr>effects := effects w @ [UnloadGltfJson]\<rparr> else w);
          w2 = w1\<lparr>gltfJsonLoader := None\<rparr>;
          w3 = w2\<lparr>effects := effects w2 @ map UnloadLoader (loaders w2)\<rparr>
      in w3\<lparr>loaders := []\<rparr>)"

text \<open>A deferred settles once: \<open>resolve\<close> and \<open>reject\<close> act on a pending promise only.\<close>

definition promise_resolve :: "World \<Rightarrow> World" where
  "promise_resolve w =
     (if promise w = PromisePending
      then w\<lparr>promise := PromiseResolved, effects := effects w @ [PromiseResolve]\<rparr>
      else w)"

definition promise_reject :: "LoadError \<Rightarrow> World \<Rightarrow> World" where
  "promise_reject e w =
     (if promise w = PromisePending
      then w\<lparr>promise := PromiseRejected e, effects := effects w @ [PromiseReject e]\<rparr>
      else w)"

definition handleError :: "World \<Rightarrow> LoadError option \<Rightarrow> World" where
  "handleError w error =
     (let w1 = unload w;
          w2 = w1\<lparr>state := FAILED\<rparr>;
          errorMessage = ''Failed to load glTF'';
          error = getError errorMessage error
      in promise_reject error w2)"

text \<open>The two handlers chained on \<open>when.all(promises)\<close>, source lines 1007 to 1019.\<close>

definition allThen :: "World \<Rightarrow> World" where
  "allThen w =
     (if destroyed w then w
      else promise_resolve (w\<lparr>state := READY\<rparr>))"

definition allOtherwise :: "LoadError option \<Rightarrow> World \<Rightarrow> World" where
  "allOtherwise error w =
     (if destroyed w then w
      else handleError w error)"

definition statusOf :: "World \<Rightarrow> nat \<Rightarrow> Status" where
  "statusOf w h = (if h < length (subs w) then snd (subs w ! h) else Pending)"

fun firstRejected :: "World \<Rightarrow> nat list \<Rightarrow> LoadError option option" where
  "firstRejected w [] = None"
| "firstRejected w (h # hs) =
     (case statusOf w h of Rejected cause \<Rightarrow> Some cause | _ \<Rightarrow> firstRejected w hs)"

text \<open>
  Modelled from the spec: ThirdParty/when.js is not under src/. \<open>when.all\<close> rejects with
  the cause of the first promise that rejects and resolves once every promise has
  resolved, at once for an empty array; it settles once.
\<close>

definition settleAll :: "World \<Rightarrow> World" where
  "settleAll w =
     (case aggregate w of
        None \<Rightarrow> w
      | Some promises \<Rightarrow>
          if aggregate_settled w then w
          else (case firstRejected w promises of
                  Some cause \<Rightarrow> allOtherwise cause (w\<lparr>aggregate_settled := True\<rparr>)
                | None \<Rightarrow>
                    if \<forall>h \<in> set promises. statusOf w h = Resolved
                    then allThen (w\<lparr>aggregate_settled := True\<rparr>)
                    else w))"

definition parse :: "Platform \<Rightarrow> Gltf \<Rightarrow> unit assembly" where
  "parse P gltf =
     bindA (loadNodes P gltf) (\<lambda>nodes.
     bindA (loadScene gltf nodes) (\<lambda>scene w0.
       let components = Components_new\<lparr>comp_scene := Some scene, comp_nodes := Some nodes\<rparr>;
           w1 = w0\<lparr>loader_components := Some components\<rparr>;
           featureMetadataExtension =
             (case gltf_extensions gltf of None \<Rightarrow> None | Some ext \<Rightarrow> EXT_feature_metadata ext)
       in
       bindA (case featureMetadataExtension of
                None \<Rightarrow> returnA ()
              | Some extension \<Rightarrow>
                  bindA (loadFeatureMetadata extension) (\<lambda>featureMetadataLoader.
                    if featureMetadataLoaderThenable P
                    then register featureMetadataLoader FeatureMetadataThen
                    else throwA TypeError))
         (\<lambda>_ w2.
            (Inr (), settleAll (w2\<lparr>aggregate := Some (loaders w2),
                                   aggregate_settled := False\<rparr>))) w1))"

subsection \<open>The continuations\<close>

definition updAttribute :: "nat \<Rightarrow> (Attribute \<Rightarrow> Attribute) \<Rightarrow> World \<Rightarrow> World" where
  "updAttribute a f w = w\<lparr>attributes := (attributes w)[a := f (attributes w ! a)]\<rparr>"

text \<open>
  \<open>defined(draco) && defined(draco.attributes) && defined(draco.attributes[semantic])\<close>
\<close>

definition dracoCovers :: "Draco option \<Rightarrow> string \<Rightarrow> bool" where
  "dracoCovers draco semantic =
     (case draco of
        None \<Rightarrow> False
      | Some d \<Rightarrow>
          (case draco_attributes d of
             None \<Rightarrow> False
           | Some dracoAttributes \<Rightarrow> map_of dracoAttributes semantic \<noteq> None))"

text \<open>
  Source lines 431 to 458. When the resolved loader has no \<open>quantization\<close>, the read of
  \<open>quantization.componentDatatype\<close> raises inside the handler; the promise library
  catches it, and the assignments made before it stay.
\<close>

definition vertexAttributeThen ::
  "nat \<Rightarrow> Draco option \<Rightarrow> string \<Rightarrow> LoaderOutput \<Rightarrow> World \<Rightarrow> World" where
  "vertexAttributeThen attribute draco semantic vertexBufferLoader w =
     (if destroyed w then w
      else
        let w1 = updAttribute attribute
                   (\<lambda>a. a\<lparr>attr_buffer := out_vertexBuffer vertexBufferLoader\<rparr>) w
        in
        if dracoCovers draco semantic then
          let w2 = updAttribute attribute
                     (\<lambda>a. a\<lparr>attr_byteOffset := Some 0, attr_byteStride := None\<rparr>) w1
          in
          (case out_quantization vertexBufferLoader of
             None \<Rightarrow> w2
           | Some quantization \<Rightarrow>
               updAttribute attribute
                 (\<lambda>a. let a1 = a\<lparr>attr_componentDatatype :=
                                    Some (q_componentDatatype quantization)\<rparr>;
                          a2 = (if q_octEncoded quantization
                                then a1\<lparr>attr_type := Some VEC2\<rparr> else a1)
                      in a2\<lparr>attr_quantization := out_quantization vertexBufferLoader\<rparr>) w2)
        else w1)"

definition instancedBufferThen :: "nat \<Rightarrow> LoaderOutput \<Rightarrow> World \<Rightarrow> World" where
  "instancedBufferThen attribute vertexBufferLoader w =
     (if destroyed w then w
      else updAttribute attribute
             (\<lambda>a. a\<lparr>attr_buffer := out_vertexBuffer vertexBufferLoader\<rparr>) w)"

definition instancedTypedArrayThen ::
  "Platform \<Rightarrow> nat \<Rightarrow> Accessor \<Rightarrow> LoaderOutput \<Rightarrow> World \<Rightarrow> World" where
  "instancedTypedArrayThen P attribute accessor bufferViewLoader w =
     (if destroyed w then w
      else
        (case out_typedArray bufferViewLoader of
           None \<Rightarrow> w
         | Some bufferViewTypedArray \<Rightarrow>
             let accessorTypedArray = getAccessorTypedArray P accessor bufferViewTypedArray in
             updAttribute attribute
               (\<lambda>a. a\<lparr>attr_typedArray := Some accessorTypedArray\<rparr>) w))"

definition indicesThen :: "nat \<Rightarrow> LoaderOutput \<Rightarrow> World \<Rightarrow> World" where
  "indicesThen indices indexBufferLoader w =
     (if destroyed w then w
      else w\<lparr>indicesStore := (indicesStore w)
             [indices := (indicesStore w ! indices)
                \<lparr>ind_buffer := out_indexBuffer indexBufferLoader\<rparr>]\<rparr>)"

definition textureThen :: "nat \<Rightarrow> LoaderOutput \<Rightarrow> World \<Rightarrow> World" where
  "textureThen texture textureLoader w =
     (if destroyed w then w
      else w\<lparr>textures := (textures w)
             [texture := (textures w ! texture)
                \<lparr>tex_texture := out_texture textureLoader\<rparr>]\<rparr>)"

definition skinThen ::
  "Platform \<Rightarrow> nat \<Rightarrow> Accessor \<Rightarrow> nat \<Rightarrow> LoaderOutput \<Rightarrow> World \<Rightarrow> World" where
  "skinThen P skin accessor jointsLength bufferViewLoader w =
     (if destroyed w then w
      else
        (case out_typedArray bufferViewLoader of
           None \<Rightarrow> w
         | Some bufferViewTypedArray \<Rightarrow>
             let accessorTypedArray = getAccessorTypedArray P accessor bufferViewTypedArray;
                 inverseBindMatrices =
                   map (\<lambda>i. unpack Matrix4 accessorTypedArray (i * 16)) [0..<jointsLength]
             in w\<lparr>skinStore := (skinStore w)
                  [skin := (skinStore w ! skin)
                     \<lparr>skin_inverseBindMatrices := Some inverseBindMatrices\<rparr>]\<rparr>))"

definition featureMetadataThen :: "LoaderOutput \<Rightarrow> World \<Rightarrow> World" where
  "featureMetadataThen featureMetadataLoader w =
     (if destroyed w then w
      else w\<lparr>loader_components :=
             map_option (\<lambda>c. c\<lparr>comp_featureMetadata :=
                                  out_featureMetadata featureMetadataLoader\<rparr>)
               (loader_components w)\<rparr>)"

fun runContinuation :: "Platform \<Rightarrow> Continuation \<Rightarrow> LoaderOutput \<Rightarrow> World \<Rightarrow> World" where
  "runContinuation P (VertexAttributeThen a draco semantic) out w =
     vertexAttributeThen a draco semantic out w"
| "runContinuation P (InstancedBufferThen a) out w = instancedBufferThen a out w"
| "runContinuation P (InstancedTypedArrayThen a accessor) out w =
     instancedTypedArrayThen P a accessor out w"
| "runContinuation P (IndicesThen i) out w = indicesThen i out w"
| "runContinuation P (TextureThen t) out w = textureThen t out w"
| "runContinuation P (SkinThen s accessor jointsLength) out w =
     skinThen P s accessor jointsLength out w"
| "runContinuation P FeatureMetadataThen out w = featureMetadataThen out w"

subsection \<open>The loader's methods and the events of a load\<close>

definition GltfLoader_new :: World where
  "GltfLoader_new =
     \<lparr>state = UNLOADED, gltfJsonLoader = None, loaders = [], loader_components = None,
      promise = PromisePending, destroyed = False, subs = [], conts = [], aggregate = None,
      aggregate_settled = False, json_status = None, supportsWebP_initialized = False,
      attributes = [], indicesStore = [], textures = [], skinStore = [], effects = []\<rparr>"

definition load :: "World \<Rightarrow> World" where
  "load w =
     w\<lparr>gltfJsonLoader := Some \<lparr>jl_gltf = None\<rparr>, state := LOADING,
       json_status := Some Pending\<rparr>"

text \<open>The two handlers on the document loader's promise, source lines 160 to 171.\<close>

definition jsonThen :: "World \<Rightarrow> World" where
  "jsonThen w = (if destroyed w then w else w\<lparr>state := PROCESSING\<rparr>)"

definition jsonOtherwise :: "LoadError option \<Rightarrow> World \<Rightarrow> World" where
  "jsonOtherwise error w = (if destroyed w then w else handleError w error)"

definition process :: "Platform \<Rightarrow> unit assembly" where
  "process P w =
     (if state w \<noteq> PROCESSING then (Inr (), w)
      else if \<not> supportsWebP_initialized w then (Inr (), w)
      else
        (case gltfJsonLoader w of
           None \<Rightarrow> (Inr (), w)
         | Some jsonLoader \<Rightarrow>
             bindA (required (jl_gltf jsonLoader)) (\<lambda>gltf.
             bindA (parse P gltf) (\<lambda>_ w'.
               (Inr (), w'\<lparr>effects := effects w' @ [UnloadGltfJson],
                            gltfJsonLoader := None\<rparr>))) w))"

text \<open>
  Modelled from the spec: \<open>destroy\<close> and \<open>isDestroyed\<close> are ResourceLoader's, not under
  src/. Destroying the loader tears it down as \<open>unload\<close> does (section 3, lifecycle) and
  raises the flag that \<open>isDestroyed\<close> reads.
\<close>

definition destroy :: "World \<Rightarrow> World" where
  "destroy w = (unload w)\<lparr>destroyed := True\<rparr>"

definition setStatus :: "nat \<Rightarrow> Status \<Rightarrow> World \<Rightarrow> World" where
  "setStatus h st w = w\<lparr>subs := (subs w)[h := (fst (subs w ! h), st)]\<rparr>"

definition continuationsOn :: "World \<Rightarrow> nat \<Rightarrow> Continuation list" where
  "continuationsOn w h = map snd (filter (\<lambda>hc. fst hc = h) (conts w))"

text \<open>
  A sub-loader's promise resolves: the handlers registered on it run in the order of
  registration, the component's continuation first, the one of \<open>when.all\<close> last.
\<close>

definition loaderResolved :: "Platform \<Rightarrow> nat \<Rightarrow> LoaderOutput \<Rightarrow> World \<Rightarrow> World" where
  "loaderResolved P h out w =
     (if h < length (subs w) \<and> statusOf w h = Pending then
        settleAll (foldl (\<lambda>w' c. runContinuation P c out w')
                     (setStatus h Resolved w) (continuationsOn w h))
      else w)"

definition loaderRejected :: "nat \<Rightarrow> LoadError option \<Rightarrow> World \<Rightarrow> World" where
  "loaderRejected h cause w =
     (if h < length (subs w) \<and> statusOf w h = Pending then
        settleAll (setStatus h (Rejected cause) w)
      else w)"

definition jsonResolved :: "Gltf \<Rightarrow> World \<Rightarrow> World" where
  "jsonResolved gltf w =
     (if json_status w = Some Pending then
        jsonThen (w\<lparr>json_status := Some Resolved,
                     gltfJsonLoader :=
                       map_option (\<lambda>jl. jl\<lparr>jl_gltf := Some gltf\<rparr>) (gltfJsonLoader w)\<rparr>)
      else w)"

definition jsonRejected :: "LoadError option \<Rightarrow> World \<Rightarrow> World" where
  "jsonRejected cause w =
     (if json_status w = Some Pending then
        jsonOtherwise cause (w\<lparr>json_status := Some (Rejected cause)\<rparr>)
      else w)"

datatype Event =
  Load
| JsonResolved Gltf
| JsonRejected "LoadError option"
| WebPInitialized
| Process
| LoaderResolved nat LoaderOutput
| LoaderRejected nat "LoadError option"
| Unload
| Destroy

fun step :: "Platform \<Rightarrow> Event \<Rightarrow> World \<Rightarrow> World" where
  "step P Load w = load w"
| "step P (JsonResolved gltf) w = jsonResolved gltf w"
| "step P (JsonRejected cause) w = jsonRejected cause w"
| "step P WebPInitialized w = w\<lparr>supportsWebP_initialized := True\<rparr>"
| "step P Process w = snd (process P w)"
| "step P (LoaderResolved h out) w = loaderResolved P h out w"
| "step P (LoaderRejected h cause) w = loaderRejected h cause w"
| "step P Unload w = unload w"
| "step P Destroy w = destroy w"

definition run :: "Platform \<Rightarrow> Event list \<Rightarrow> World \<Rightarrow> World" where
  "run P events w = foldl (\<lambda>w' e. step P e w') w events"

subsection \<open>Sample inputs\<close>

text \<open>
  A small document in the shape of the loader's test models: a node with a mesh, a skin
  and a child; a primitive with a position attribute, two morph targets, a material and a
  metadata extension that declares one feature ID attribute; a mesh with default weights.
\<close>

definition samplePlatform :: Platform where
  "samplePlatform =
     \<lparr>getAccessorByteStride = (\<lambda>gltf accessor. 12),
      getImageIdFromTexture = (\<lambda>gltf textureId. textureId),
      createSampler = (\<lambda>gltf textureInfo. Sampler_NEAREST),
      instancedArrays = True,
      getAccessorTypedArray = (\<lambda>accessor bytes. map real bytes),
      featureMetadataLoaderThenable = True\<rparr>"

definition positionAccessor :: Accessor where
  "positionAccessor =
     \<lparr>acc_bufferView = Some 0, acc_byteOffset = Some 12, acc_componentType = 5126,
      acc_normalized = Some False, acc_count = 24, acc_type = VEC3,
      acc_min = None, acc_max = None\<rparr>"

definition matricesAccessor :: Accessor where
  "matricesAccessor =
     \<lparr>acc_bufferView = Some 1, acc_byteOffset = Some 0, acc_componentType = 5126,
      acc_normalized = Some False, acc_count = 2, acc_type = MAT4,
      acc_min = None, acc_max = None\<rparr>"

definition sampleMaterial :: GltfMaterial where
  "sampleMaterial =
     \<lparr>gm_pbrMetallicRoughness = None,
      gm_extensions = Some \<lparr>KHR_materials_pbrSpecularGlossiness =
        Some \<lparr>gsg_diffuseTexture = None, gsg_specularGlossinessTexture = None,
              gsg_diffuseFactor = None, gsg_specularFactor = None,
              gsg_glossinessFactor = Some 1\<rparr>\<rparr>,
      gm_emissiveTexture = Some \<lparr>ti_index = Some 0, ti_texCoord = Some 0\<rparr>,
      gm_normalTexture = None, gm_occlusionTexture = None, gm_emissiveFactor = None,
      gm_alphaMode = Some ''OPAQUE'', gm_alphaCutoff = None, gm_doubleSided = Some True\<rparr>"

definition sampleFeatureId :: GltfFeatureId where
  "sampleFeatureId =
     \<lparr>gfi_featureTable = Some ''buildings'',
      gfi_featureIds = Some \<lparr>fi_attribute = Some ''_FEATURE_ID_0'', fi_constant = None,
        fi_divisor = None, fi_texture = None, fi_channels = None\<rparr>\<rparr>"

definition samplePrimitive :: GltfPrimitive where
  "samplePrimitive =
     \<lparr>gp_material = Some 0,
      gp_extensions = Some \<lparr>KHR_draco_mesh_compression = None,
        prim_EXT_feature_metadata = Some \<lparr>gfm_featureIdAttributes = Some [sampleFeatureId],
          gfm_featureIdTextures = None, gfm_featureTextures = None\<rparr>\<rparr>,
      gp_attributes = Some [(''POSITION'', 0)],
      gp_targets = Some [[(''POSITION'', 0)], [(''POSITION'', 0)]],
      gp_indices = None, gp_mode = Some 4\<rparr>"

definition sampleSkin :: GltfSkin where
  "sampleSkin = \<lparr>gs_joints = [1, 0], gs_inverseBindMatrices = Some 1\<rparr>"

definition emptyNode :: GltfNode where
  "emptyNode =
     \<lparr>gn_matrix = None, gn_translation = None, gn_rotation = None, gn_scale = None,
      gn_mesh = None, gn_weights = None, gn_children = None, gn_skin = None,
      gn_extensions = None\<rparr>"

definition sampleNode :: GltfNode where
  "sampleNode = emptyNode\<lparr>gn_mesh := Some 0, gn_children := Some [1], gn_skin := Some 0\<rparr>"

definition sampleGltf :: Gltf where
  "sampleGltf =
     \<lparr>accessors = [positionAccessor, matricesAccessor],
      materials = [sampleMaterial],
      meshes = [\<lparr>gmesh_primitives = [samplePrimitive], gmesh_weights = Some [1 / 2, 1 / 2]\<rparr>],
      gltf_nodes = Some [sampleNode, emptyNode],
      skins = [sampleSkin],
      gltf_scenes = Some [\<lparr>gsc_nodes = Some [0]\<rparr>],
      gltf_scene = Some 0,
      gltf_extensions = None\<rparr>"

definition sampleInstancing :: GltfInstancing where
  "sampleInstancing =
     \<lparr>gi_attributes = None,
      gi_extensions = Some \<lparr>inst_EXT_feature_metadata =
        Some \<lparr>gfm_featureIdAttributes = Some [sampleFeatureId],
              gfm_featureIdTextures = None, gfm_featureTextures = None\<rparr>\<rparr>\<rparr>"

definition sampleDraco :: Draco where
  "sampleDraco = \<lparr>draco_bufferView = 2, draco_attributes = Some [(''NORMAL'', 0)]\<rparr>"

definition sampleOutput :: LoaderOutput where
  "sampleOutput =
     \<lparr>out_vertexBuffer = Some 7,
      out_quantization = Some \<lparr>q_componentDatatype = 5121, q_octEncoded = True,
                               q_normalizationRange = Some 255\<rparr>,
      out_indexBuffer = None, out_typedArray = None, out_texture = None,
      out_featureMetadata = None\<rparr>"

definition dracoWorld :: World where
  "dracoWorld =
     snd (loadVertexAttribute samplePlatform sampleGltf 0 ''NORMAL'' (Some sampleDraco)
            GltfLoader_new)"

definition destroyedDracoWorld :: World where
  "destroyedDracoWorld = destroy dracoWorld"

subsection \<open>Predicates for the proofs\<close>

text \<open>
  What assembly leaves alone: it spawns sub-loaders, which it pushes on \<open>_loaders\<close>,
  registers continuations and allocates components, and touches nothing else of the
  loader. \<open>preserving\<close> says so of an assembly function, from any world.
\<close>

definition extends :: "World \<Rightarrow> World \<Rightarrow> bool" where
  "extends w w' \<longleftrightarrow>
     state w' = state w \<and> gltfJsonLoader w' = gltfJsonLoader w \<and>
     loader_components w' = loader_components w \<and> promise w' = promise w \<and>
     destroyed w' = destroyed w \<and> aggregate w' = aggregate w \<and>
     aggregate_settled w' = aggregate_settled w \<and> json_status w' = json_status w \<and>
     effects w' = effects w \<and>
     length (subs w) \<le> length (subs w') \<and>
     loaders w' = loaders w @ [length (subs w)..<length (subs w')]"

definition preserving :: "'a assembly \<Rightarrow> bool" where
  "preserving m \<longleftrightarrow> (\<forall>w. extends w (snd (m w)))"

text \<open>
  Every spawned sub-loader has resolved; some spawned sub-loader has rejected; the public
  promise is rejected; the components exist and every node's skin is undefined.
\<close>

fun isRejected :: "Status \<Rightarrow> bool" where
  "isRejected (Rejected cause) = True"
| "isRejected _ = False"

definition allResolved :: "World \<Rightarrow> bool" where
  "allResolved w \<longleftrightarrow> list_all (\<lambda>s. snd s = Resolved) (subs w)"

definition anyRejected :: "World \<Rightarrow> bool" where
  "anyRejected w \<longleftrightarrow> list_ex (\<lambda>s. isRejected (snd s)) (subs w)"

definition isRejection :: "PublicPromise \<Rightarrow> bool" where
  "isRejection p \<longleftrightarrow> (case p of PromiseRejected e \<Rightarrow> True | _ \<Rightarrow> False)"

definition skinsUndefined :: "World \<Rightarrow> bool" where
  "skinsUndefined w \<longleftrightarrow>
     (case loader_components w of
        None \<Rightarrow> False
      | Some c \<Rightarrow>
          (case comp_nodes c of
             None \<Rightarrow> False
           | Some ns \<Rightarrow> list_all (\<lambda>n. node_skin n = None) ns))"

text \<open>
  The invariant of a load after assembly: the aggregate watches every spawned sub-loader
  and has settled exactly when one has rejected or all have resolved; the public promise
  is pending until then, is resolved only when all have resolved and rejected only when
  one has rejected; and unless the loader has been destroyed, the promise and the state
  follow the aggregate.
\<close>

definition settlement :: "World \<Rightarrow> bool" where
  "settlement w \<longleftrightarrow>
     aggregate w = Some [0..<length (subs w)] \<and>
     (aggregate_settled w \<longleftrightarrow> anyRejected w \<or> allResolved w) \<and>
     (\<not> aggregate_settled w \<longrightarrow> promise w = PromisePending) \<and>
     (promise w = PromiseResolved \<longrightarrow> allResolved w) \<and>
     (isRejection (promise w) \<longrightarrow> anyRejected w) \<and>
     (\<not> destroyed w \<longrightarrow> aggregate_settled w \<longrightarrow>
        (allResolved w \<longrightarrow> promise w = PromiseResolved \<and> state w = READY) \<and>
        (anyRejected w \<longrightarrow> isRejection (promise w) \<and> state w = FAILED)) \<and>
     skinsUndefined w"

text \<open>
  The events that can follow assembly: the document promise has settled and the load has
  been started, so \<open>Load\<close> and the document's events are not among them.
\<close>

fun afterAssembly :: "Event \<Rightarrow> bool" where
  "afterAssembly Load = False"
| "afterAssembly (JsonResolved gltf) = False"
| "afterAssembly (JsonRejected cause) = False"
| "afterAssembly _ = True"

text \<open>What a component continuation leaves alone: everything but the components.\<close>

definition sameControl :: "World \<Rightarrow> World \<Rightarrow> bool" where
  "sameControl w w' \<longleftrightarrow>
     state w' = state w \<and> gltfJsonLoader w' = gltfJsonLoader w \<and> promise w' = promise w \<and>
     destroyed w' = destroyed w \<and> subs w' = subs w \<and> aggregate w' = aggregate w \<and>
     aggregate_settled w' = aggregate_settled w \<and> skinsUndefined w' = skinsUndefined w"

text \<open>
  A document with one node, one mesh and one position attribute, so that assembly spawns
  one sub-loader; the worlds of a new loader once the document has arrived, once
  assembled, and after being destroyed before its sub-loader resolves.
\<close>

definition tinyGltf :: Gltf where
  "tinyGltf =
     \<lparr>accessors = [positionAccessor],
      materials = [],
      meshes = [\<lparr>gmesh_primitives =
                  [\<lparr>gp_material = None, gp_extensions = None,
                    gp_attributes = Some [(''POSITION'', 0)], gp_targets = None,
                    gp_indices = None, gp_mode = Some 4\<rparr>],
                gmesh_weights = None\<rparr>],
      gltf_nodes = Some [emptyNode\<lparr>gn_mesh := Some 0\<rparr>],
      skins = [],
      gltf_scenes = None,
      gltf_scene = None,
      gltf_extensions = None\<rparr>"

definition tinyLoaded :: World where
  "tinyLoaded = run samplePlatform [Load, JsonResolved tinyGltf, WebPInitialized] GltfLoader_new"

definition sampleLoaded :: World where
  "sampleLoaded = run samplePlatform [Load, JsonResolved sampleGltf, WebPInitialized] GltfLoader_new"

definition tinyAssembled :: World where
  "tinyAssembled = snd (process samplePlatform tinyLoaded)"

definition tinyDestroyed :: World where
  "tinyDestroyed = destroy tinyAssembled"

definition tinyDestroyedThenResolved :: World where
  "tinyDestroyedThenResolved =
     run samplePlatform [Destroy, LoaderResolved 0 sampleOutput] tinyAssembled"

definition sampleCause :: "LoadError option" where
  "sampleCause = Some (Cause ''Failed to load vertex buffer'')"

text \<open>
  The sample document once assembled: it holds three sub-loaders (handles 0, 1 and 2),
  none of them settled. \<open>sampleFirstResolved\<close> is that load after the first of them has
  resolved.
\<close>

definition sampleAssembled :: World where
  "sampleAssembled = snd (process samplePlatform sampleLoaded)"

definition sampleFirstResolved :: World where
  "sampleFirstResolved = run samplePlatform [LoaderResolved 0 sampleOutput] sampleAssembled"

text \<open>
  What \<open>handleError\<close> (lines 174-180) leaves behind when it runs on \<open>w\<close> with \<open>cause\<close> and
  ends in \<open>w'\<close>: the unload comes first (the document loader released if still held,
  then every sub-loader held, in order), the rejection of the public promise with the
  top-level error comes last, and the loader holds nothing and is FAILED.
\<close>

definition unloadsThenRejects :: "World \<Rightarrow> LoadError option \<Rightarrow> World \<Rightarrow> bool" where
  "unloadsThenRejects w cause w' \<longleftrightarrow>
     effects w' =
       effects w @ (if gltfJsonLoader w = None then [] else [UnloadGltfJson]) @
         map UnloadLoader (loaders w) @
         [PromiseReject (getError ''Failed to load glTF'' cause)] \<and>
     promise w' = PromiseRejected (getError ''Failed to load glTF'' cause) \<and>
     gltfJsonLoader w' = None \<and> loaders w' = [] \<and> state w' = FAILED"

section \<open>Properties\<close>

subsection \<open>Evaluation and the shape of a successful assembly\<close>

lemmas sample_defs = samplePlatform_def positionAccessor_def matricesAccessor_def sampleMaterial_def
  sampleFeatureId_def samplePrimitive_def sampleSkin_def emptyNode_def sampleNode_def sampleGltf_def
  sampleInstancing_def GltfLoader_new_def

lemmas assembly_defs = returnA_def throwA_def bindA_def lookup_def required_def element_def
  indicesBelow_def spawn_def register_def allocIndices_def allocTexture_def allocSkin_def
  readTexture_def setSampler_def setInverseBindMatrices_def defaultValue_def fromArray_def getDefault_def unpack_def
  loadVertexBuffer_def loadIndexBuffer_def loadBufferView_def createAttribute_def
  allocAttribute_def loadVertexAttribute_def loadInstancedAttribute_def loadIndices_def
  loadTexture_def Material_extensions_def componentAsTextureInfo_def loadMetallicRoughness_def
  loadSpecularGlossiness_def materialSpecularGlossiness_def materialEmissiveTexture_def
  materialNormalTexture_def materialOcclusionTexture_def loadMaterial_def
  loadFeatureIdAttribute_def loadFeatureIdTexture_def loadMorphTarget_def selfInitialised_def
  loadFeatureIdAttributes_def loadFeatureIdTextures_def loadMorphTargets_def
  primitiveMaterial_def primitiveAttributes_def primitiveTargets_def primitiveIndices_def
  primitiveFeatureMetadata_def loadPrimitive_def loadInstances_def Node_extensions_def
  loadNode_def nodeRef_def asAccessorId_def loadInverseBindMatrices_def loadSkin_def
  loadNodes_def loadFeatureMetadata_def getSceneNodeIds_def loadScene_def
  Attribute_new_def Indices_new_def Texture_new_def Skin_new_def MetallicRoughness_new_def
  SpecularGlossiness_new_def Material_new_def FeatureIdAttribute_new_def
  FeatureIdTexture_new_def MorphTarget_new_def Primitive_new_def Instances_new_def
  Node_new_def Components_new_def

lemma bindA_Inr:
  "bindA m f w = (Inr y, w') \<longleftrightarrow> (\<exists>x w1. m w = (Inr x, w1) \<and> f x w1 = (Inr y, w'))"
  by (auto simp: bindA_def split: prod.splits sum.splits)

lemma returnA_Inr: "returnA x w = (Inr y, w') \<longleftrightarrow> y = x \<and> w' = w"
  by (auto simp: returnA_def)

lemma forEach_Inr:
  "forEach f xs w = (Inr ys, w') \<Longrightarrow>
     length ys = length xs \<and> (\<forall>i<length xs. \<exists>wi wi'. f (xs ! i) wi = (Inr (ys ! i), wi'))"
proof (induction xs arbitrary: w ys)
  case Nil
  then show ?case by (simp add: returnA_Inr)
next
  case (Cons x xs)
  from Cons.prems obtain y w1 ys' where
    fx: "f x w = (Inr y, w1)" and rest: "forEach f xs w1 = (Inr ys', w')" and ys: "ys = y # ys'"
    by (auto simp: bindA_Inr returnA_Inr)
  from Cons.IH[OF rest] have len: "length ys' = length xs"
    and each: "\<forall>i<length xs. \<exists>wi wi'. f (xs ! i) wi = (Inr (ys' ! i), wi')" by auto
  show ?case
  proof (intro conjI allI impI)
    show "length ys = length (x # xs)" using len ys by simp
  next
    fix i assume "i < length (x # xs)"
    then show "\<exists>wi wi'. f ((x # xs) ! i) wi = (Inr (ys ! i), wi')"
      using fx each ys by (cases i) auto
  qed
qed

lemma loadMorphTargets_length:
  "loadMorphTargets P gltf targets w = (Inr ms, w') \<Longrightarrow> length ms = length targets"
  by (auto simp: loadMorphTargets_def indicesBelow_def dest: forEach_Inr)


lemma primitiveTargets_weights:
  assumes "primitiveTargets P gltf gltfPrimitive morphWeights primitive w = (Inr primitive', w')"
      and "gp_targets gltfPrimitive = Some targets"
  shows "prim_morphWeights primitive' =
           Some (case morphWeights of Some weights \<Rightarrow> weights | None \<Rightarrow> replicate (length targets) 0)
         \<and> length (prim_morphTargets primitive') = length (prim_morphTargets primitive) + length targets"
  using assms
  by (auto simp: primitiveTargets_def bindA_Inr returnA_Inr dest: loadMorphTargets_length split: option.splits)

lemma primitiveMaterial_keeps:
  "primitiveMaterial P gltf gltfPrimitive primitive w = (Inr primitive', w') \<Longrightarrow>
     prim_morphWeights primitive' = prim_morphWeights primitive \<and>
     prim_morphTargets primitive' = prim_morphTargets primitive"
  by (auto simp: primitiveMaterial_def bindA_Inr returnA_Inr split: option.splits)

lemma primitiveAttributes_keeps:
  "primitiveAttributes P gltf gltfPrimitive draco primitive w = (Inr primitive', w') \<Longrightarrow>
     prim_morphWeights primitive' = prim_morphWeights primitive \<and>
     prim_morphTargets primitive' = prim_morphTargets primitive"
  by (auto simp: primitiveAttributes_def bindA_Inr returnA_Inr split: option.splits)

lemma primitiveIndices_keeps:
  "primitiveIndices gltf gltfPrimitive draco primitive w = (Inr primitive', w') \<Longrightarrow>
     prim_morphWeights primitive' = prim_morphWeights primitive \<and>
     prim_morphTargets primitive' = prim_morphTargets primitive"
  by (auto simp: primitiveIndices_def bindA_Inr returnA_Inr split: option.splits)

lemma primitiveFeatureMetadata_keeps:
  "primitiveFeatureMetadata P gltf featureMetadata primitive w = (Inr primitive', w') \<Longrightarrow>
     prim_morphWeights primitive' = prim_morphWeights primitive \<and>
     prim_morphTargets primitive' = prim_morphTargets primitive"
  by (auto simp: primitiveFeatureMetadata_def bindA_Inr returnA_Inr split: option.splits)

lemma loadPrimitive_morphWeights:
  assumes "loadPrimitive P gltf gltfPrimitive morphWeights w = (Inr primitive, w')"
      and "gp_targets gltfPrimitive = Some targets"
  shows "prim_morphWeights primitive =
           Some (case morphWeights of Some weights \<Rightarrow> weights | None \<Rightarrow> replicate (length targets) 0)
         \<and> length (prim_morphTargets primitive) = length targets"
proof -
  from assms(1) obtain p1 w1 p2 w2 p3 w3 p4 w4 p5 w5 draco featureMetadata where
    s1: "primitiveMaterial P gltf gltfPrimitive Primitive_new w = (Inr p1, w1)" and
    s2: "primitiveAttributes P gltf gltfPrimitive draco p1 w1 = (Inr p2, w2)" and
    s3: "primitiveTargets P gltf gltfPrimitive morphWeights p2 w2 = (Inr p3, w3)" and
    s4: "primitiveIndices gltf gltfPrimitive draco p3 w3 = (Inr p4, w4)" and
    s5: "primitiveFeatureMetadata P gltf featureMetadata p4 w4 = (Inr p5, w5)" and
    res: "primitive = p5\<lparr>prim_primitiveType := gp_mode gltfPrimitive\<rparr>"
    unfolding loadPrimitive_def Let_def bindA_Inr returnA_Inr by blast
  have "prim_morphTargets p2 = []"
    using primitiveMaterial_keeps[OF s1] primitiveAttributes_keeps[OF s2]
    by (simp add: Primitive_new_def)
  then show ?thesis
    using primitiveTargets_weights[OF s3 assms(2)] primitiveIndices_keeps[OF s4]
      primitiveFeatureMetadata_keeps[OF s5] res by simp
qed

subsection \<open>Morph weights\<close>

text \<open>
  Claim C7. For every primitive with N morph targets, the primitive's morph weights are a
  copy of the owning node's weights if the node declares them, else of the mesh's default
  weights if the mesh declares them, else N zeros; the primitive has N morph targets.
\<close>

theorem morphWeights_node_mesh_or_zero:
  assumes loaded: "loadNode P gltf gltfNode w = (Inr node, w')"
      and mesh: "gn_mesh gltfNode = Some meshId"
      and prim: "i < length (gmesh_primitives (meshes gltf ! meshId))"
      and targets: "gp_targets (gmesh_primitives (meshes gltf ! meshId) ! i) = Some targets"
  shows "i < length (node_primitives node) \<and>
         prim_morphWeights (node_primitives node ! i) =
           Some (case gn_weights gltfNode of
                   Some weights \<Rightarrow> weights
                 | None \<Rightarrow>
                     (case gmesh_weights (meshes gltf ! meshId) of
                        Some weights \<Rightarrow> weights
                      | None \<Rightarrow> replicate (length targets) 0)) \<and>
         length (prim_morphTargets (node_primitives node ! i)) = length targets"
proof -
  let ?mesh = "meshes gltf ! meshId"
  let ?morphWeights = "defaultValue (gn_weights gltfNode) (gmesh_weights ?mesh)"
  from loaded mesh obtain pushed w1 where
    each: "forEach (\<lambda>gltfPrimitive. loadPrimitive P gltf gltfPrimitive ?morphWeights)
             (gmesh_primitives ?mesh) w1 = (Inr pushed, w')" and
    node: "node_primitives node = pushed"
    by (auto simp: loadNode_def Let_def Node_extensions_def Node_new_def bindA_Inr returnA_Inr
          lookup_def throwA_def split: if_splits)
  from forEach_Inr[OF each] prim obtain wi wi' where
    len: "length pushed = length (gmesh_primitives ?mesh)" and
    one: "loadPrimitive P gltf (gmesh_primitives ?mesh ! i) ?morphWeights wi = (Inr (pushed ! i), wi')"
    by blast
  from loadPrimitive_morphWeights[OF one targets] len prim node show ?thesis
    by (simp add: defaultValue_def split: option.splits)
qed

theorem morphWeights_node_mesh_or_zero_witness:
  "\<exists>node w'. loadNode samplePlatform sampleGltf sampleNode GltfLoader_new = (Inr node, w') \<and>
     prim_morphWeights (node_primitives node ! 0) = Some [1 / 2, 1 / 2] \<and>
     length (prim_morphTargets (node_primitives node ! 0)) = 2"
proof -
  have "\<exists>node w'. loadNode samplePlatform sampleGltf sampleNode GltfLoader_new = (Inr node, w')"
    by (simp add: assembly_defs sample_defs Let_def)
  then obtain node w' where
    loaded: "loadNode samplePlatform sampleGltf sampleNode GltfLoader_new = (Inr node, w')"
    by blast
  have mesh: "gn_mesh sampleNode = Some 0"
    by (simp add: sample_defs)
  have prim: "0 < length (gmesh_primitives (meshes sampleGltf ! 0))"
    by (simp add: sample_defs)
  have targets: "gp_targets (gmesh_primitives (meshes sampleGltf ! 0) ! 0) =
                   Some [[(''POSITION'', 0)], [(''POSITION'', 0)]]"
    by (simp add: sample_defs)
  from morphWeights_node_mesh_or_zero[OF loaded mesh prim targets] loaded show ?thesis
    by (simp add: sample_defs)
qed

subsection \<open>Feature ID attributes\<close>

lemma loadFeatureIdAttributes_nothing:
  "loadFeatureIdAttributes featureIdAttributes w = (Inr [], w)"
  by (simp add: loadFeatureIdAttributes_def selfInitialised_def indicesBelow_def returnA_def)

text \<open>
  Claim C5. A primitive or an instancing block whose metadata extension declares N
  feature ID attributes should get N FeatureIdAttribute objects, one per entry in order.
  The code pushes none: the loop bound is the variable being declared, which is
  \<open>undefined\<close>. On the sample primitive and the sample instancing block, which declare
  one attribute each, the lists stay empty.
\<close>

theorem featureIdAttributes_not_pushed:
  "(\<exists>featureMetadata. prim_EXT_feature_metadata (the (gp_extensions samplePrimitive)) = Some featureMetadata
       \<and> map_option length (gfm_featureIdAttributes featureMetadata) = Some 1) \<and>
   (\<exists>primitive w'.
       loadPrimitive samplePlatform sampleGltf samplePrimitive None GltfLoader_new =
         (Inr primitive, w') \<and> prim_featureIdAttributes primitive = []) \<and>
   (\<exists>instances w'.
       loadInstances samplePlatform sampleGltf sampleInstancing GltfLoader_new =
         (Inr instances, w') \<and> inst_featureIdAttributes instances = [])"
  by (simp add: assembly_defs sample_defs Let_def)

subsection \<open>Skins\<close>

lemma loadSkin_always_identity:
  "loadSkin gltf gltfSkin nodesLength w =
     (Inr None,
      w\<lparr>skinStore := skinStore w @
           [\<lparr>skin_joints = Some (map (nodeRef nodesLength) (gs_joints gltfSkin)),
             skin_inverseBindMatrices =
               Some (replicate (length (gs_joints gltfSkin)) Matrix4_IDENTITY)\<rparr>]\<rparr>)"
  by (simp add: loadSkin_def Let_def Skin_new_def allocSkin_def setInverseBindMatrices_def
        bindA_def returnA_def)

text \<open>
  Claim C3. A skin without an accessor for its inverse bind matrices gets one identity
  matrix per joint, in joint order; a skin that declares an accessor backed by a buffer
  view should get its matrices unpacked from the resolved bytes. The code reads the
  accessor from the new Skin instead of the document's skin, so it takes the identity
  branch for every skin. The sample skin declares accessor 1, backed by buffer view 1:
  the Skin gets two identity matrices, and no buffer view loader is spawned and no
  continuation registered.
\<close>

theorem skin_declared_matrices_not_unpacked:
  "gs_inverseBindMatrices sampleSkin = Some 1 \<and>
   acc_bufferView (accessors sampleGltf ! 1) = Some 1 \<and>
   (case loadSkin sampleGltf sampleSkin 2 GltfLoader_new of
      (result, w) \<Rightarrow>
        result = Inr None \<and>
        map skin_inverseBindMatrices (skinStore w) = [Some [Matrix4_IDENTITY, Matrix4_IDENTITY]] \<and>
        subs w = [] \<and> loaders w = [] \<and> conts w = [])"
  by (simp add: loadSkin_always_identity sample_defs)

subsection \<open>Materials\<close>

lemma loadMaterial_optional_channels:
  "loadMaterial P gltf gltfMaterial w = (Inr material, w') \<Longrightarrow>
     mat_specularGlossiness material = None \<and> mat_emissiveTexture material = None \<and>
     mat_normalTexture material = None \<and> mat_occlusionTexture material = None"
  by (auto simp: loadMaterial_def Let_def materialSpecularGlossiness_def Material_extensions_def
        materialEmissiveTexture_def materialNormalTexture_def materialOcclusionTexture_def
        Material_new_def bindA_Inr returnA_Inr split: option.splits)

text \<open>
  Claim C4. The Material should carry every optional channel the document declares: the
  specular glossiness channel when the extension is present, and the emissive, normal and
  occlusion textures. The code tests the new Material instead of the document's
  material, so none of these is ever loaded. The sample material declares the extension
  and an emissive texture: the Material has neither, and no texture loader is spawned;
  the alpha mode and the double-sided flag are carried.
\<close>

theorem material_optional_channels_not_loaded:
  "gm_emissiveTexture sampleMaterial = Some \<lparr>ti_index = Some 0, ti_texCoord = Some 0\<rparr> \<and>
   (\<exists>ext sg. gm_extensions sampleMaterial = Some ext \<and>
      KHR_materials_pbrSpecularGlossiness ext = Some sg) \<and>
   (\<exists>material w.
      loadMaterial samplePlatform sampleGltf sampleMaterial GltfLoader_new = (Inr material, w) \<and>
      mat_emissiveTexture material = None \<and> mat_specularGlossiness material = None \<and>
      mat_alphaMode material = Some ''OPAQUE'' \<and> mat_doubleSided material = Some True \<and>
      textures w = [] \<and> subs w = [] \<and> loaders w = [])"
  by (simp add: assembly_defs sample_defs Let_def)

subsection \<open>Unload\<close>

text \<open>
  Claim C9. \<open>unload\<close> is idempotent from every state: it raises no error (it is a total
  function of the world), a second call changes nothing and releases nothing, and after
  it the loader holds neither the document loader nor any sub-loader; over both calls
  the document loader is released at most once, and only if it was held. The loader's
  state and its promise are left as they were, READY and FAILED included.
\<close>

theorem unload_idempotent:
  "unload (unload w) = unload w \<and>
   gltfJsonLoader (unload w) = None \<and> loaders (unload w) = [] \<and>
   effects (unload (unload w)) =
     effects w @ (if gltfJsonLoader w = None then [] else [UnloadGltfJson]) @
       map UnloadLoader (loaders w) \<and>
   state (unload w) = state w \<and> promise (unload w) = promise w"
  by (simp add: unload_def Let_def)

theorem unload_idempotent_witness:
  "unload (unload (GltfLoader_new\<lparr>state := READY, loaders := [0, 1]\<rparr>)) =
     GltfLoader_new\<lparr>state := READY, effects := [UnloadLoader 0, UnloadLoader 1]\<rparr>"
  using unload_idempotent [of "GltfLoader_new\<lparr>state := READY, loaders := [0, 1]\<rparr>"]
  by (simp add: unload_def Let_def GltfLoader_new_def)

subsection \<open>Continuations\<close>

lemma runContinuation_destroyed: "destroyed w \<Longrightarrow> runContinuation P c out w = w"
  by (cases c)
     (simp_all add: vertexAttributeThen_def instancedBufferThen_def
        instancedTypedArrayThen_def indicesThen_def textureThen_def skinThen_def
        featureMetadataThen_def)

lemma continuations_destroyed:
  "destroyed w \<Longrightarrow> foldl (\<lambda>w' c. runContinuation P c out w') w cs = w"
  by (induction cs) (simp_all add: runContinuation_destroyed)

lemma settleAll_destroyed:
  "destroyed w \<Longrightarrow> settleAll w = w \<or> settleAll w = w\<lparr>aggregate_settled := True\<rparr>"
  by (simp add: settleAll_def allThen_def allOtherwise_def split: option.splits)

lemma setStatus_destroyed: "destroyed (setStatus h st w) = destroyed w"
  by (simp add: setStatus_def)

text \<open>
  Claim C8. If the loader has been destroyed by the time a completion continuation runs,
  the continuation changes nothing: not the component continuations (vertex buffer, index
  buffer, buffer view, texture, feature metadata), not the two handlers of the aggregate,
  not the two handlers of the document promise. The event of a sub-loader settling then
  changes only the promise machinery's own record of it (the sub-loader's status and
  whether the aggregate has settled).
\<close>

theorem continuations_guarded_by_destroyed:
  assumes "destroyed w"
  shows "runContinuation P c out w = w \<and>
         allThen w = w \<and> allOtherwise error w = w \<and>
         jsonThen w = w \<and> jsonOtherwise error w = w \<and>
         (loaderResolved P h out w)\<lparr>subs := subs w, aggregate_settled := aggregate_settled w\<rparr> = w \<and>
         (loaderRejected h error w)\<lparr>subs := subs w, aggregate_settled := aggregate_settled w\<rparr> = w"
proof -
  have resolved:
    "(loaderResolved P h out w)\<lparr>subs := subs w, aggregate_settled := aggregate_settled w\<rparr> = w"
  proof (cases "h < length (subs w) \<and> statusOf w h = Pending")
    case True
    let ?w1 = "setStatus h Resolved w"
    have d: "destroyed ?w1" using assms by (simp add: setStatus_destroyed)
    have "loaderResolved P h out w = settleAll ?w1"
      using True by (simp add: loaderResolved_def continuations_destroyed[OF d])
    with settleAll_destroyed[OF d] show ?thesis
      by (auto simp: setStatus_def)
  next
    case False
    then show ?thesis by (auto simp: loaderResolved_def)
  qed
  have rejected:
    "(loaderRejected h error w)\<lparr>subs := subs w, aggregate_settled := aggregate_settled w\<rparr> = w"
  proof (cases "h < length (subs w) \<and> statusOf w h = Pending")
    case True
    let ?w1 = "setStatus h (Rejected error) w"
    have d: "destroyed ?w1" using assms by (simp add: setStatus_destroyed)
    have "loaderRejected h error w = settleAll ?w1"
      using True by (simp add: loaderRejected_def)
    with settleAll_destroyed[OF d] show ?thesis
      by (auto simp: setStatus_def)
  next
    case False
    then show ?thesis by (auto simp: loaderRejected_def)
  qed
  show ?thesis
    using assms resolved rejected
    by (simp add: runContinuation_destroyed allThen_def allOtherwise_def jsonThen_def
          jsonOtherwise_def)
qed

theorem continuations_guarded_by_destroyed_witness:
  "destroyed destroyedDracoWorld \<and>
   runContinuation samplePlatform (VertexAttributeThen 0 (Some sampleDraco) ''NORMAL'')
     sampleOutput destroyedDracoWorld = destroyedDracoWorld \<and>
   allThen destroyedDracoWorld = destroyedDracoWorld"
proof -
  have d: "destroyed destroyedDracoWorld"
    by (simp add: destroyedDracoWorld_def destroy_def)
  from continuations_guarded_by_destroyed[OF d] d show ?thesis
    by simp
qed

subsection \<open>Draco attributes\<close>

lemma updAttribute_nth:
  "a < length (attributes w) \<Longrightarrow> attributes (updAttribute a f w) ! a = f (attributes w ! a)"
  by (simp add: updAttribute_def)

lemma updAttribute_length: "length (attributes (updAttribute a f w)) = length (attributes w)"
  by (simp add: updAttribute_def)

lemma vertexAttributeThen_draco:
  assumes "\<not> destroyed w" "a < length (attributes w)" "dracoCovers draco semantic"
  shows "attributes (vertexAttributeThen a draco semantic out w) ! a =
           (case out_quantization out of
              None \<Rightarrow> (attributes w ! a)
                \<lparr>attr_buffer := out_vertexBuffer out, attr_byteOffset := Some 0,
                 attr_byteStride := None\<rparr>
            | Some q \<Rightarrow> (attributes w ! a)
                \<lparr>attr_buffer := out_vertexBuffer out, attr_byteOffset := Some 0,
                 attr_byteStride := None,
                 attr_componentDatatype := Some (q_componentDatatype q),
                 attr_type := (if q_octEncoded q then Some VEC2
                               else attr_type (attributes w ! a)),
                 attr_quantization := Some q\<rparr>)"
  using assms
  by (simp add: vertexAttributeThen_def Let_def updAttribute_nth updAttribute_length
        split: option.splits)

lemma settleAll_attributes: "attributes (settleAll w) = attributes w"
  by (simp add: settleAll_def allThen_def allOtherwise_def handleError_def unload_def
        promise_resolve_def promise_reject_def Let_def split: option.splits)

lemma setStatus_attributes: "attributes (setStatus h st w) = attributes w"
  by (simp add: setStatus_def)

lemma continuationsOn_setStatus: "continuationsOn (setStatus h st w) h' = continuationsOn w h'"
  by (simp add: continuationsOn_def setStatus_def)

text \<open>
  Claim C6, as amended. For a vertex attribute decoded from a Draco payload (the Draco
  extension lists its semantic), when its vertex buffer loader resolves while the loader
  is not destroyed, the attribute gets the loader's buffer, byte offset 0 and no byte
  stride, and, from the loader's quantization, its component datatype, the quantization
  itself and, when the quantization is oct-encoded, the type VEC2 whatever the accessor
  declared. When the loader has been destroyed, the attribute is left as it was.
\<close>

theorem draco_attribute_retyped_unless_destroyed:
  assumes registered: "continuationsOn w h = [VertexAttributeThen a draco semantic]"
      and pending: "h < length (subs w)" "statusOf w h = Pending"
      and stored: "a < length (attributes w)"
      and covered: "dracoCovers draco semantic"
  shows "if destroyed w
         then attributes (loaderResolved P h out w) ! a = attributes w ! a
         else attr_buffer (attributes (loaderResolved P h out w) ! a) = out_vertexBuffer out \<and>
              attr_byteOffset (attributes (loaderResolved P h out w) ! a) = Some 0 \<and>
              attr_byteStride (attributes (loaderResolved P h out w) ! a) = None \<and>
              (\<forall>q. out_quantization out = Some q \<longrightarrow>
                 attr_quantization (attributes (loaderResolved P h out w) ! a) = Some q \<and>
                 attr_componentDatatype (attributes (loaderResolved P h out w) ! a) =
                   Some (q_componentDatatype q) \<and>
                 (q_octEncoded q \<longrightarrow>
                    attr_type (attributes (loaderResolved P h out w) ! a) = Some VEC2))"
proof -
  let ?w1 = "setStatus h Resolved w"
  have run: "attributes (loaderResolved P h out w) =
               attributes (vertexAttributeThen a draco semantic out ?w1)"
    using registered pending
    by (simp add: loaderResolved_def settleAll_attributes)
  show ?thesis
  proof (cases "destroyed w")
    case True
    then show ?thesis
      using run by (simp add: vertexAttributeThen_def setStatus_def)
  next
    case False
    then have nd: "\<not> destroyed ?w1" by (simp add: setStatus_destroyed)
    have st: "a < length (attributes ?w1)" using stored by (simp add: setStatus_attributes)
    from vertexAttributeThen_draco[OF nd st covered, of out] False run show ?thesis
      by (auto simp: setStatus_attributes split: option.splits)
  qed
qed

lemma dracoWorld_eval:
  "dracoWorld = GltfLoader_new
     \<lparr>loaders := [0],
      subs := [(VertexBufferRequest (Some 0) (Some sampleDraco) ''NORMAL'', Pending)],
      conts := [(0, VertexAttributeThen 0 (Some sampleDraco) ''NORMAL'')],
      attributes :=
        [Attribute_new
           \<lparr>attr_semantic := Some ''NORMAL'',
            attr_constant := Some (Unpacked Cartesian3 (replicate 3 (Some 0))),
            attr_componentDatatype := Some 5126, attr_normalized := Some False,
            attr_count := Some 24, attr_type := Some VEC3, attr_byteOffset := Some 12,
            attr_byteStride := Some 12\<rparr>]\<rparr>"
  by (simp add: dracoWorld_def assembly_defs sample_defs Let_def)

theorem draco_attribute_retyped_unless_destroyed_witness:
  "\<not> destroyed dracoWorld \<and>
   attr_type (attributes dracoWorld ! 0) = Some VEC3 \<and>
   attr_byteOffset (attributes (loaderResolved samplePlatform 0 sampleOutput dracoWorld) ! 0) = Some 0 \<and>
   attr_byteStride (attributes (loaderResolved samplePlatform 0 sampleOutput dracoWorld) ! 0) = None \<and>
   attr_type (attributes (loaderResolved samplePlatform 0 sampleOutput dracoWorld) ! 0) = Some VEC2"
proof -
  have registered: "continuationsOn dracoWorld 0 = [VertexAttributeThen 0 (Some sampleDraco) ''NORMAL'']"
    by (simp add: dracoWorld_eval continuationsOn_def GltfLoader_new_def)
  have pending: "0 < length (subs dracoWorld)" "statusOf dracoWorld 0 = Pending"
    by (simp_all add: dracoWorld_eval statusOf_def GltfLoader_new_def)
  have stored: "0 < length (attributes dracoWorld)"
    by (simp add: dracoWorld_eval GltfLoader_new_def)
  have covered: "dracoCovers (Some sampleDraco) ''NORMAL''"
    by (simp add: dracoCovers_def sampleDraco_def)
  have alive: "\<not> destroyed dracoWorld"
    by (simp add: dracoWorld_eval GltfLoader_new_def)
  have q: "out_quantization sampleOutput =
             Some \<lparr>q_componentDatatype = 5121, q_octEncoded = True, q_normalizationRange = Some 255\<rparr>"
    by (simp add: sampleOutput_def)
  have t: "attr_type (attributes dracoWorld ! 0) = Some VEC3"
    by (simp add: dracoWorld_eval GltfLoader_new_def Attribute_new_def)
  from draco_attribute_retyped_unless_destroyed[OF registered pending stored covered,
         of samplePlatform sampleOutput] alive q t
  show ?thesis by simp
qed

theorem draco_attribute_untouched_when_destroyed:
  "dracoCovers (Some sampleDraco) ''NORMAL'' \<and>
   statusOf (loaderResolved samplePlatform 0 sampleOutput destroyedDracoWorld) 0 = Resolved \<and>
   attr_byteOffset (attributes (loaderResolved samplePlatform 0 sampleOutput destroyedDracoWorld) ! 0)
     = Some 12 \<and>
   attr_byteStride (attributes (loaderResolved samplePlatform 0 sampleOutput destroyedDracoWorld) ! 0)
     = Some 12 \<and>
   attr_quantization (attributes (loaderResolved samplePlatform 0 sampleOutput destroyedDracoWorld) ! 0)
     = None \<and>
   attr_type (attributes (loaderResolved samplePlatform 0 sampleOutput destroyedDracoWorld) ! 0)
     = Some VEC3"
  by (simp add: destroyedDracoWorld_def dracoWorld_eval destroy_def unload_def Let_def
        loaderResolved_def statusOf_def setStatus_def continuationsOn_def
        vertexAttributeThen_def settleAll_def GltfLoader_new_def Attribute_new_def
        dracoCovers_def sampleDraco_def)

subsection \<open>What assembly leaves alone\<close>

lemma extends_refl: "extends w w"
  by (simp add: extends_def)

lemma extends_trans: "extends w w1 \<Longrightarrow> extends w1 w2 \<Longrightarrow> extends w w2"
proof -
  assume a: "extends w w1" and b: "extends w1 w2"
  from a b obtain j k where
    j: "length (subs w1) = length (subs w) + j" and k: "length (subs w2) = length (subs w1) + k"
    by (auto simp: extends_def dest!: le_Suc_ex)
  have "[length (subs w)..<length (subs w2)] =
          [length (subs w)..<length (subs w1)] @ [length (subs w1)..<length (subs w2)]"
    using j k upt_add_eq_append[of "length (subs w)" "length (subs w1)" k] by simp
  with a b j k show ?thesis by (simp add: extends_def)
qed

named_theorems preserve

lemma preserving_returnA [preserve]: "preserving (returnA x)"
  by (simp add: preserving_def returnA_def extends_refl)

lemma preserving_throwA [preserve]: "preserving (throwA e)"
  by (simp add: preserving_def throwA_def extends_refl)

lemma preserving_bindA [preserve]:
  "preserving m \<Longrightarrow> (\<And>x. preserving (f x)) \<Longrightarrow> preserving (bindA m f)"
  unfolding preserving_def
proof
  fix w assume m: "\<forall>w. extends w (snd (m w))" and f: "\<And>x. \<forall>w. extends w (snd (f x w))"
  show "extends w (snd (bindA m f w))"
  proof (cases "m w")
    case (Pair r w1)
    with m[rule_format, of w] have e1: "extends w w1" by simp
    show ?thesis
    proof (cases r)
      case (Inl e)
      with Pair e1 show ?thesis by (simp add: bindA_def)
    next
      case (Inr x)
      with Pair have "bindA m f w = f x w1" by (simp add: bindA_def)
      with f[of x, rule_format, of w1] e1 show ?thesis by (auto intro: extends_trans)
    qed
  qed
qed

lemma preserving_forEach [preserve]: "(\<And>x. preserving (f x)) \<Longrightarrow> preserving (forEach f xs)"
  by (induction xs) (auto intro!: preserve)

lemma preserving_lookup [preserve]: "preserving (lookup xs i)"
  by (simp add: lookup_def preserve)

lemma preserving_required [preserve]: "preserving (required x)"
  by (cases x) (simp_all add: required_def preserve)

lemma preserving_case_option [preserve]:
  "preserving a \<Longrightarrow> (\<And>v. preserving (b v)) \<Longrightarrow> preserving (case x of None \<Rightarrow> a | Some v \<Rightarrow> b v)"
  by (cases x) simp_all

lemma preserving_if [preserve]:
  "preserving a \<Longrightarrow> preserving b \<Longrightarrow> preserving (if c then a else b)"
  by simp

lemma preserving_case_prod [preserve]:
  "(\<And>a b. preserving (f a b)) \<Longrightarrow> preserving (case p of (a, b) \<Rightarrow> f a b)"
  by (cases p) simp

lemma preserving_primitives [preserve]:
  "preserving (spawn req)" "preserving (register h c)" "preserving (allocAttribute attribute)"
  "preserving (allocIndices indices)" "preserving (allocTexture texture)"
  "preserving (allocSkin skin)" "preserving (readTexture t)"
  "preserving (setSampler t sampler)" "preserving (setInverseBindMatrices s matrices)"
  by (simp_all add: preserving_def extends_def spawn_def register_def allocAttribute_def
        allocIndices_def allocTexture_def allocSkin_def readTexture_def lookup_def returnA_def
        throwA_def setSampler_def setInverseBindMatrices_def)

lemma preserving_buffers [preserve]:
  "preserving (loadVertexBuffer gltf accessorId semantic draco)"
  "preserving (loadIndexBuffer gltf accessorId draco)"
  "preserving (loadBufferView bufferViewId)"
  "preserving (createAttribute P gltf accessorId semantic)"
  unfolding loadVertexBuffer_def loadIndexBuffer_def loadBufferView_def createAttribute_def Let_def
  by (intro preserve)+

lemma preserving_attributes [preserve]:
  "preserving (loadVertexAttribute P gltf accessorId semantic draco)"
  "preserving (loadInstancedAttribute P gltf accessorId semantic)"
  "preserving (loadIndices gltf accessorId draco)"
  "preserving (loadTexture P gltf textureInfo)"
  "preserving (componentAsTextureInfo t)"
  unfolding loadVertexAttribute_def loadInstancedAttribute_def loadIndices_def loadTexture_def
    componentAsTextureInfo_def
  by (intro preserve)+

lemma preserving_material_blocks [preserve]:
  "preserving (loadMetallicRoughness P gltf pbrMetallicRoughness)"
  "preserving (loadSpecularGlossiness P gltf pbrSpecularGlossiness)"
  "preserving (materialEmissiveTexture P gltf material)"
  "preserving (materialNormalTexture P gltf material)"
  "preserving (materialOcclusionTexture P gltf material)"
  unfolding loadMetallicRoughness_def loadSpecularGlossiness_def materialEmissiveTexture_def
    materialNormalTexture_def materialOcclusionTexture_def Let_def
  by (intro preserve)+

lemma preserving_loadMaterial [preserve]:
  "preserving (materialSpecularGlossiness P gltf material)"
  "preserving (loadMaterial P gltf gltfMaterial)"
  unfolding materialSpecularGlossiness_def loadMaterial_def Let_def
  by (intro preserve)+

lemma preserving_feature_ids [preserve]:
  "preserving (loadFeatureIdAttribute gltfFeatureIdAttribute)"
  "preserving (loadFeatureIdTexture P gltf gltfFeatureIdTexture)"
  "preserving (loadMorphTarget P gltf target)"
  unfolding loadFeatureIdAttribute_def loadFeatureIdTexture_def loadMorphTarget_def
  by (intro preserve)+

lemma preserving_loops [preserve]:
  "preserving (loadFeatureIdAttributes featureIdAttributes)"
  "preserving (loadFeatureIdTextures P gltf featureIdTextures)"
  "preserving (loadMorphTargets P gltf targets)"
  unfolding loadFeatureIdAttributes_def loadFeatureIdTextures_def loadMorphTargets_def Let_def
  by (intro preserve)+

lemma preserving_primitive_blocks [preserve]:
  "preserving (primitiveMaterial P gltf gltfPrimitive primitive)"
  "preserving (primitiveAttributes P gltf gltfPrimitive draco primitive)"
  "preserving (primitiveTargets P gltf gltfPrimitive morphWeights primitive)"
  "preserving (primitiveIndices gltf gltfPrimitive draco primitive)"
  "preserving (primitiveFeatureMetadata P gltf featureMetadata primitive)"
  unfolding primitiveMaterial_def primitiveAttributes_def primitiveTargets_def
    primitiveIndices_def primitiveFeatureMetadata_def
  by (intro preserve)+

lemma preserving_loadPrimitive [preserve]:
  "preserving (loadPrimitive P gltf gltfPrimitive morphWeights)"
  "preserving (loadInstances P gltf instancingExtension)"
  unfolding loadPrimitive_def loadInstances_def Let_def
  by (intro preserve)+

lemma preserving_loadNode [preserve]:
  "preserving (loadNode P gltf gltfNode)"
  "preserving (loadInverseBindMatrices gltf accessorId skin jointsLength)"
  unfolding loadNode_def loadInverseBindMatrices_def Let_def
  by (intro preserve)+

lemma preserving_loadSkin [preserve]:
  "preserving (loadSkin gltf gltfSkin nodesLength)"
  unfolding loadSkin_def Let_def
  by (intro preserve)+

lemma preserving_loadNodes [preserve]:
  "preserving (loadNodes P gltf)"
  "preserving (loadFeatureMetadata extension)"
  "preserving (getSceneNodeIds gltf)"
  unfolding loadNodes_def loadFeatureMetadata_def getSceneNodeIds_def Let_def
  by (intro preserve)+

lemma preserving_loadScene [preserve]:
  "preserving (loadScene gltf ns)"
  unfolding loadScene_def by (intro preserve)+

subsection \<open>Statuses\<close>

lemma allResolved_iff: "allResolved w \<longleftrightarrow> (\<forall>h<length (subs w). statusOf w h = Resolved)"
  by (simp add: allResolved_def statusOf_def list_all_length)

lemma anyRejected_iff: "anyRejected w \<longleftrightarrow> (\<exists>h<length (subs w). isRejected (statusOf w h))"
  by (auto simp: anyRejected_def statusOf_def list_ex_length)

lemma firstRejected_None:
  "firstRejected w hs = None \<longleftrightarrow> (\<forall>h \<in> set hs. \<not> isRejected (statusOf w h))"
  by (induction hs) (auto split: Status.splits)

lemma firstRejected_upto:
  "firstRejected w [0..<length (subs w)] = None \<longleftrightarrow> \<not> anyRejected w"
  by (auto simp: firstRejected_None anyRejected_iff)

lemma allResolved_upto:
  "(\<forall>h \<in> {0..<length (subs w)}. statusOf w h = Resolved) \<longleftrightarrow> allResolved w"
  by (auto simp: allResolved_iff)

lemma rejected_not_resolved: "anyRejected w \<Longrightarrow> \<not> allResolved w"
  by (auto simp: anyRejected_iff allResolved_iff)

lemma statusOf_setStatus:
  "h < length (subs w) \<Longrightarrow>
     statusOf (setStatus h st w) h' = (if h' = h then st else statusOf w h')"
  by (auto simp: statusOf_def setStatus_def)

lemma length_setStatus: "length (subs (setStatus h st w)) = length (subs w)"
  by (simp add: setStatus_def)

lemma pending_not_resolved:
  "h < length (subs w) \<Longrightarrow> statusOf w h = Pending \<Longrightarrow> \<not> allResolved w"
  by (auto simp: allResolved_iff)

lemma anyRejected_setResolved:
  "h < length (subs w) \<Longrightarrow> statusOf w h = Pending \<Longrightarrow>
     anyRejected (setStatus h Resolved w) = anyRejected w"
proof -
  assume h: "h < length (subs w)" and p: "statusOf w h = Pending"
  have "\<And>h'. isRejected (statusOf (setStatus h Resolved w) h') = isRejected (statusOf w h')"
    using h p by (simp add: statusOf_setStatus)
  then show ?thesis by (simp add: anyRejected_iff length_setStatus)
qed

lemma anyRejected_setRejected:
  "h < length (subs w) \<Longrightarrow> anyRejected (setStatus h (Rejected cause) w)"
  by (auto simp: anyRejected_iff statusOf_setStatus length_setStatus)

subsection \<open>What settling the aggregate does\<close>

lemma unload_fields:
  "state (unload w) = state w" "promise (unload w) = promise w"
  "destroyed (unload w) = destroyed w" "subs (unload w) = subs w"
  "aggregate (unload w) = aggregate w" "aggregate_settled (unload w) = aggregate_settled w"
  "loader_components (unload w) = loader_components w" "gltfJsonLoader (unload w) = None"
  "loaders (unload w) = []" "attributes (unload w) = attributes w"
  "json_status (unload w) = json_status w"
  by (simp_all add: unload_def Let_def)

lemma handleError_fields:
  "state (handleError w error) = FAILED"
  "promise (handleError w error) =
     (if promise w = PromisePending
      then PromiseRejected (RuntimeError ''Failed to load glTF'' error) else promise w)"
  "destroyed (handleError w error) = destroyed w" "subs (handleError w error) = subs w"
  "aggregate (handleError w error) = aggregate w"
  "aggregate_settled (handleError w error) = aggregate_settled w"
  "loader_components (handleError w error) = loader_components w"
  "gltfJsonLoader (handleError w error) = None" "loaders (handleError w error) = []"
  by (simp_all add: handleError_def promise_reject_def getError_def Let_def unload_fields)

lemma allThen_fields:
  "state (allThen w) = (if destroyed w then state w else READY)"
  "promise (allThen w) =
     (if \<not> destroyed w \<and> promise w = PromisePending then PromiseResolved else promise w)"
  "destroyed (allThen w) = destroyed w" "subs (allThen w) = subs w"
  "aggregate (allThen w) = aggregate w" "aggregate_settled (allThen w) = aggregate_settled w"
  "loader_components (allThen w) = loader_components w"
  "gltfJsonLoader (allThen w) = gltfJsonLoader w"
  by (simp_all add: allThen_def promise_resolve_def)

lemma allOtherwise_fields:
  "state (allOtherwise error w) = (if destroyed w then state w else FAILED)"
  "promise (allOtherwise error w) =
     (if \<not> destroyed w \<and> promise w = PromisePending
      then PromiseRejected (RuntimeError ''Failed to load glTF'' error) else promise w)"
  "destroyed (allOtherwise error w) = destroyed w" "subs (allOtherwise error w) = subs w"
  "aggregate (allOtherwise error w) = aggregate w"
  "aggregate_settled (allOtherwise error w) = aggregate_settled w"
  "loader_components (allOtherwise error w) = loader_components w"
  "gltfJsonLoader (allOtherwise error w) = (if destroyed w then gltfJsonLoader w else None)"
  by (simp_all add: allOtherwise_def handleError_fields)

lemma settlementD:
  assumes "settlement w"
  shows "aggregate w = Some [0..<length (subs w)]"
    and "aggregate_settled w \<longleftrightarrow> anyRejected w \<or> allResolved w"
    and "\<not> aggregate_settled w \<Longrightarrow> promise w = PromisePending"
    and "promise w = PromiseResolved \<Longrightarrow> allResolved w"
    and "isRejection (promise w) \<Longrightarrow> anyRejected w"
    and "\<not> destroyed w \<Longrightarrow> aggregate_settled w \<Longrightarrow> allResolved w \<Longrightarrow>
           promise w = PromiseResolved \<and> state w = READY"
    and "\<not> destroyed w \<Longrightarrow> aggregate_settled w \<Longrightarrow> anyRejected w \<Longrightarrow>
           isRejection (promise w) \<and> state w = FAILED"
    and "skinsUndefined w"
  using assms unfolding settlement_def by blast+

lemma settlementI:
  assumes "aggregate w = Some [0..<length (subs w)]"
    and "aggregate_settled w \<longleftrightarrow> anyRejected w \<or> allResolved w"
    and "\<not> aggregate_settled w \<Longrightarrow> promise w = PromisePending"
    and "promise w = PromiseResolved \<Longrightarrow> allResolved w"
    and "isRejection (promise w) \<Longrightarrow> anyRejected w"
    and "\<not> destroyed w \<Longrightarrow> aggregate_settled w \<Longrightarrow> allResolved w \<Longrightarrow>
           promise w = PromiseResolved \<and> state w = READY"
    and "\<not> destroyed w \<Longrightarrow> aggregate_settled w \<Longrightarrow> anyRejected w \<Longrightarrow>
           isRejection (promise w) \<and> state w = FAILED"
    and "skinsUndefined w"
  shows "settlement w"
  unfolding settlement_def using assms by blast

lemma settlement_mono:
  assumes inv: "settlement w"
      and same: "state w' = state w" "promise w' = promise w" "subs w' = subs w"
        "aggregate w' = aggregate w" "aggregate_settled w' = aggregate_settled w"
        "skinsUndefined w' = skinsUndefined w"
      and d: "destroyed w \<Longrightarrow> destroyed w'"
  shows "settlement w'"
proof -
  have ar: "allResolved w' = allResolved w" "anyRejected w' = anyRejected w"
    using same by (simp_all add: allResolved_def anyRejected_def)
  note D = settlementD[OF inv]
  show ?thesis
  proof (rule settlementI)
    show "aggregate w' = Some [0..<length (subs w')]" using D(1) same by simp
    show "aggregate_settled w' \<longleftrightarrow> anyRejected w' \<or> allResolved w'"
      using D(2) same ar by simp
    show "promise w' = PromisePending" if "\<not> aggregate_settled w'"
      using that D(3) same by simp
    show "allResolved w'" if "promise w' = PromiseResolved"
      using that D(4) same ar by simp
    show "anyRejected w'" if "isRejection (promise w')"
      using that D(5) same ar by simp
    show "promise w' = PromiseResolved \<and> state w' = READY"
      if "\<not> destroyed w'" "aggregate_settled w'" "allResolved w'"
      using that D(6) d same ar by auto
    show "isRejection (promise w') \<and> state w' = FAILED"
      if "\<not> destroyed w'" "aggregate_settled w'" "anyRejected w'"
      using that D(7) d same ar by auto
    show "skinsUndefined w'" using D(8) same by simp
  qed
qed

lemma settlement_cong:
  assumes "state w' = state w" "promise w' = promise w" "destroyed w' = destroyed w"
    "subs w' = subs w" "aggregate w' = aggregate w" "aggregate_settled w' = aggregate_settled w"
    "skinsUndefined w' = skinsUndefined w"
  shows "settlement w' = settlement w"
  using assms by (simp add: settlement_def allResolved_def anyRejected_def)

lemma settleAll_settlement:
  assumes agg: "aggregate w = Some [0..<length (subs w)]"
      and skins: "skinsUndefined w"
      and settled: "aggregate_settled w \<Longrightarrow> settlement w"
      and unsettled: "\<not> aggregate_settled w \<Longrightarrow> promise w = PromisePending"
  shows "settlement (settleAll w)"
proof (cases "aggregate_settled w")
  case True
  then show ?thesis using settled agg by (simp add: settleAll_def)
next
  case False
  note pend = unsettled[OF False]
  let ?w = "w\<lparr>aggregate_settled := True\<rparr>"
  have su: "skinsUndefined ?w" using skins by (simp add: skinsUndefined_def)
  show ?thesis
  proof (cases "anyRejected w")
    case True
    then obtain cause where c: "firstRejected w [0..<length (subs w)] = Some cause"
      using firstRejected_upto[of w] by (cases "firstRejected w [0..<length (subs w)]") auto
    have eq: "settleAll w = allOtherwise cause ?w"
      using False agg c by (simp add: settleAll_def)
    have ar: "anyRejected (allOtherwise cause ?w)" "\<not> allResolved (allOtherwise cause ?w)"
      using True rejected_not_resolved[OF True]
      by (simp_all add: anyRejected_def allResolved_def allOtherwise_fields)
    show ?thesis
      unfolding eq settlement_def
      using ar agg pend su
      by (simp add: allOtherwise_fields isRejection_def skinsUndefined_def)
  next
    case nr: False
    then have none: "firstRejected w [0..<length (subs w)] = None"
      using firstRejected_upto[of w] by simp
    show ?thesis
    proof (cases "allResolved w")
      case True
      have eq: "settleAll w = allThen ?w"
        using False agg none True by (simp add: settleAll_def allResolved_upto)
      have ar: "\<not> anyRejected (allThen ?w)" "allResolved (allThen ?w)"
        using True nr by (simp_all add: anyRejected_def allResolved_def allThen_fields)
      show ?thesis
        unfolding eq settlement_def
        using ar agg pend su
        by (simp add: allThen_fields isRejection_def skinsUndefined_def)
    next
      case ar: False
      have eq: "settleAll w = w"
        using False agg none ar by (simp add: settleAll_def allResolved_upto)
      show ?thesis
        unfolding eq settlement_def
        using ar nr agg pend skins False
        by (simp add: isRejection_def)
    qed
  qed
qed

lemma settleAll_fields:
  "subs (settleAll w) = subs w" "aggregate (settleAll w) = aggregate w"
  "destroyed (settleAll w) = destroyed w"
  "loader_components (settleAll w) = loader_components w"
  "gltfJsonLoader w = None \<Longrightarrow> gltfJsonLoader (settleAll w) = None"
  by (simp_all add: settleAll_def allThen_fields allOtherwise_fields split: option.splits)

subsection \<open>Events after assembly keep the settlement\<close>

lemma runContinuation_sameControl: "sameControl w (runContinuation P c out w)"
proof (cases c)
  case FeatureMetadataThen
  then show ?thesis
    by (cases "loader_components w")
       (simp_all add: sameControl_def featureMetadataThen_def skinsUndefined_def)
qed (simp_all add: sameControl_def vertexAttributeThen_def instancedBufferThen_def
      instancedTypedArrayThen_def indicesThen_def textureThen_def skinThen_def
      updAttribute_def Let_def skinsUndefined_def split: option.splits)

lemma continuations_sameControl:
  "sameControl w (foldl (\<lambda>w' c. runContinuation P c out w') w cs)"
proof (induction cs arbitrary: w)
  case Nil
  show ?case by (simp add: sameControl_def)
next
  case (Cons c cs)
  from runContinuation_sameControl[of w P c out] Cons.IH[of "runContinuation P c out w"]
  show ?case by (simp add: sameControl_def)
qed

lemma settlement_sameControl: "sameControl w w' \<Longrightarrow> settlement w' = settlement w"
  by (rule settlement_cong) (simp_all add: sameControl_def)

lemma setStatus_fields:
  "state (setStatus h st w) = state w" "gltfJsonLoader (setStatus h st w) = gltfJsonLoader w"
  "promise (setStatus h st w) = promise w" "destroyed (setStatus h st w) = destroyed w"
  "aggregate (setStatus h st w) = aggregate w"
  "aggregate_settled (setStatus h st w) = aggregate_settled w"
  "skinsUndefined (setStatus h st w) = skinsUndefined w"
  by (simp_all add: setStatus_def skinsUndefined_def)

lemma status_change_settlement:
  assumes inv: "settlement w"
      and h: "h < length (subs w)" "statusOf w h = Pending"
      and st: "st = Resolved \<or> isRejected st"
      and same: "sameControl (setStatus h st w) w2"
  shows "settlement (settleAll w2)"
proof (rule settleAll_settlement)
  let ?w1 = "setStatus h st w"
  have len: "length (subs w2) = length (subs w)"
    using same by (simp add: sameControl_def length_setStatus)
  show "aggregate w2 = Some [0..<length (subs w2)]"
    using settlementD(1)[OF inv] same len by (simp add: sameControl_def setStatus_fields)
  show "skinsUndefined w2"
    using settlementD(8)[OF inv] same by (simp add: sameControl_def setStatus_fields)
  show "promise w2 = PromisePending" if "\<not> aggregate_settled w2"
    using that settlementD(3)[OF inv] same by (simp add: sameControl_def setStatus_fields)
  show "settlement w2" if settled: "aggregate_settled w2"
  proof -
    from settled same have s: "aggregate_settled w"
      by (simp add: sameControl_def setStatus_fields)
    with settlementD(2)[OF inv] pending_not_resolved[OF h] have rej: "anyRejected w"
      by simp
    have rej1: "anyRejected ?w1"
    proof -
      from rej obtain h' where h': "h' < length (subs w)" "isRejected (statusOf w h')"
        by (auto simp: anyRejected_iff)
      with h have "h' \<noteq> h" by auto
      with h' h(1) show ?thesis
        by (auto simp: anyRejected_iff length_setStatus statusOf_setStatus)
    qed
    note D = settlementD[OF inv]
    have nres: "\<not> allResolved w" "\<not> allResolved ?w1"
      using rejected_not_resolved[OF rej] rejected_not_resolved[OF rej1] by simp_all
    have "settlement ?w1"
    proof (rule settlementI)
      show "aggregate ?w1 = Some [0..<length (subs ?w1)]"
        using D(1) by (simp add: setStatus_fields length_setStatus)
      show "aggregate_settled ?w1 \<longleftrightarrow> anyRejected ?w1 \<or> allResolved ?w1"
        using s rej1 by (simp add: setStatus_fields)
      show "promise ?w1 = PromisePending" if "\<not> aggregate_settled ?w1"
        using that s by (simp add: setStatus_fields)
      show "allResolved ?w1" if "promise ?w1 = PromiseResolved"
        using that D(4) nres by (simp add: setStatus_fields)
      show "anyRejected ?w1" if "isRejection (promise ?w1)"
        by (rule rej1)
      show "promise ?w1 = PromiseResolved \<and> state ?w1 = READY"
        if "\<not> destroyed ?w1" "aggregate_settled ?w1" "allResolved ?w1"
        using that nres by simp
      show "isRejection (promise ?w1) \<and> state ?w1 = FAILED"
        if "\<not> destroyed ?w1" "aggregate_settled ?w1" "anyRejected ?w1"
        using that D(7) s rej by (simp add: setStatus_fields)
      show "skinsUndefined ?w1"
        using D(8) by (simp add: setStatus_fields)
    qed
    with settlement_sameControl[OF same] show ?thesis by simp
  qed
qed

lemma step_settlement:
  assumes inv: "settlement w" and json: "gltfJsonLoader w = None" and ev: "afterAssembly e"
  shows "settlement (step P e w) \<and> gltfJsonLoader (step P e w) = None"
proof (cases e)
  case WebPInitialized
  have "settlement (w\<lparr>supportsWebP_initialized := True\<rparr>)"
    by (rule settlement_mono[OF inv]) (simp_all add: skinsUndefined_def)
  with json WebPInitialized show ?thesis by simp
next
  case Process
  with inv json show ?thesis by (simp add: process_def)
next
  case (LoaderResolved h out)
  show ?thesis
  proof (cases "h < length (subs w) \<and> statusOf w h = Pending")
    case True
    let ?w2 = "foldl (\<lambda>w' c. runContinuation P c out w') (setStatus h Resolved w)
                 (continuationsOn w h)"
    have same: "sameControl (setStatus h Resolved w) ?w2"
      by (rule continuations_sameControl)
    have "settlement (settleAll ?w2)"
      using status_change_settlement[OF inv _ _ _ same] True by simp
    moreover have "gltfJsonLoader ?w2 = None"
      using same json by (simp add: sameControl_def setStatus_fields)
    ultimately show ?thesis
      using True LoaderResolved by (simp add: loaderResolved_def settleAll_fields)
  next
    case False
    with inv json LoaderResolved show ?thesis by (auto simp: loaderResolved_def)
  qed
next
  case (LoaderRejected h cause)
  show ?thesis
  proof (cases "h < length (subs w) \<and> statusOf w h = Pending")
    case True
    let ?w1 = "setStatus h (Rejected cause) w"
    have same: "sameControl ?w1 ?w1" by (simp add: sameControl_def)
    have "settlement (settleAll ?w1)"
      using status_change_settlement[OF inv _ _ _ same] True by simp
    moreover have "gltfJsonLoader ?w1 = None"
      using json by (simp add: setStatus_fields)
    ultimately show ?thesis
      using True LoaderRejected by (simp add: loaderRejected_def settleAll_fields)
  next
    case False
    with inv json LoaderRejected show ?thesis by (auto simp: loaderRejected_def)
  qed
next
  case Unload
  have "settlement (unload w)"
    by (rule settlement_mono[OF inv]) (simp_all add: unload_fields skinsUndefined_def)
  with Unload show ?thesis by (simp add: unload_fields)
next
  case Destroy
  have "settlement ((unload w)\<lparr>destroyed := True\<rparr>)"
    by (rule settlement_mono[OF inv]) (simp_all add: unload_fields skinsUndefined_def)
  with Destroy show ?thesis by (simp add: destroy_def unload_fields)
qed (use ev in simp_all)

lemma run_settlement:
  assumes "settlement w" "gltfJsonLoader w = None" "list_all afterAssembly events"
  shows "settlement (run P events w) \<and> gltfJsonLoader (run P events w) = None"
  using assms
proof (induction events arbitrary: w)
  case Nil
  then show ?case by (simp add: run_def)
next
  case (Cons e events)
  from Cons.prems step_settlement[of w e P]
  have "settlement (step P e w)" "gltfJsonLoader (step P e w) = None" by simp_all
  from Cons.IH[OF this] Cons.prems(3) show ?case by (simp add: run_def)
qed

subsection \<open>The sample loads, evaluated\<close>

lemmas event_defs = run_def settleAll_def allThen_def allOtherwise_def
  handleError_def unload_def destroy_def promise_resolve_def promise_reject_def getError_def
  statusOf_def setStatus_def continuationsOn_def loaderResolved_def loaderRejected_def
  vertexAttributeThen_def updAttribute_def dracoCovers_def

lemmas loader_defs = load_def jsonResolved_def jsonThen_def jsonRejected_def
  jsonOtherwise_def process_def parse_def event_defs

lemma tinyLoaded_eval:
  "tinyLoaded = GltfLoader_new
     \<lparr>state := PROCESSING, gltfJsonLoader := Some \<lparr>jl_gltf = Some tinyGltf\<rparr>,
      json_status := Some Resolved, supportsWebP_initialized := True\<rparr>"
  by (simp add: tinyLoaded_def loader_defs GltfLoader_new_def)

lemma tiny_process:
  "process samplePlatform tinyLoaded =
     (Inr (), tinyLoaded
       \<lparr>gltfJsonLoader := None, loaders := [0],
        loader_components := Some \<lparr>comp_scene = Some \<lparr>scene_nodes = [None]\<rparr>,
          comp_nodes = Some [Node_new\<lparr>node_primitives :=
            [Primitive_new\<lparr>prim_attributes := [0], prim_primitiveType := Some 4\<rparr>]\<rparr>],
          comp_featureMetadata = None\<rparr>,
        subs := [(VertexBufferRequest (Some 0) None ''POSITION'', Pending)],
        conts := [(0, VertexAttributeThen 0 None ''POSITION'')],
        aggregate := Some [0],
        attributes :=
          [Attribute_new
             \<lparr>attr_semantic := Some ''POSITION'',
              attr_constant := Some (Unpacked Cartesian3 (replicate 3 (Some 0))),
              attr_componentDatatype := Some 5126, attr_normalized := Some False,
              attr_count := Some 24, attr_type := Some VEC3, attr_byteOffset := Some 12,
              attr_byteStride := Some 12\<rparr>],
        effects := [UnloadGltfJson]\<rparr>)"
  by (simp add: tinyLoaded_eval loader_defs assembly_defs sample_defs tinyGltf_def Let_def)

lemma sample_process: "fst (process samplePlatform sampleLoaded) = Inr ()"
  by (simp add: sampleLoaded_def loader_defs assembly_defs sample_defs Let_def)

lemma sampleLoaded_ready:
  "subs sampleLoaded = []" "loaders sampleLoaded = []" "promise sampleLoaded = PromisePending"
  "state sampleLoaded = PROCESSING" "supportsWebP_initialized sampleLoaded"
  "gltfJsonLoader sampleLoaded \<noteq> None"
  by (simp_all add: sampleLoaded_def loader_defs GltfLoader_new_def)

lemmas sampleRun_defs = sampleAssembled_def sampleLoaded_def loader_defs assembly_defs sample_defs
  Let_def sampleOutput_def sampleCause_def

lemma sampleAllResolved:
  "\<not> destroyed (run samplePlatform
      [LoaderResolved 0 sampleOutput, LoaderResolved 1 sampleOutput,
       LoaderResolved 2 sampleOutput] sampleAssembled)"
  "allResolved (run samplePlatform
      [LoaderResolved 0 sampleOutput, LoaderResolved 1 sampleOutput,
       LoaderResolved 2 sampleOutput] sampleAssembled)"
  by (simp_all add: sampleRun_defs allResolved_def)

lemma sampleOneRejected:
  "\<not> destroyed (run samplePlatform
      [LoaderResolved 0 sampleOutput, LoaderRejected 1 sampleCause,
       LoaderResolved 2 sampleOutput] sampleAssembled)"
  "anyRejected (run samplePlatform
      [LoaderResolved 0 sampleOutput, LoaderRejected 1 sampleCause,
       LoaderResolved 2 sampleOutput] sampleAssembled)"
  by (simp_all add: sampleRun_defs anyRejected_def)

lemma sampleFirstResolved_fields:
  "\<not> destroyed sampleFirstResolved" "promise sampleFirstResolved = PromisePending"
  "length (subs sampleFirstResolved) = 3" "statusOf sampleFirstResolved 1 = Pending"
  "effects sampleFirstResolved = [UnloadGltfJson]" "loaders sampleFirstResolved = [0, 1, 2]"
  "gltfJsonLoader sampleFirstResolved = None"
  by (simp_all add: sampleFirstResolved_def sampleRun_defs)

subsection \<open>Skins of the assembled nodes\<close>

lemma loadNode_skin: "loadNode P gltf gltfNode w = (Inr node, w') \<Longrightarrow> node_skin node = None"
  by (auto simp: loadNode_def Let_def Node_extensions_def Node_new_def bindA_Inr returnA_Inr
        split: option.splits)

lemma loadNodes_skin:
  assumes "loadNodes P gltf w = (Inr ns, w')"
  shows "list_all (\<lambda>n. node_skin n = None) ns"
proof -
  from assms obtain gltfNodes loaded w1 where
    first: "forEach (loadNode P gltf) gltfNodes w = (Inr loaded, w1)" and
    second: "forEach (\<lambda>(gltfNode, node).
                 case gn_skin gltfNode of
                   None \<Rightarrow> returnA node
                 | Some skinId \<Rightarrow>
                     bindA (lookup (skins gltf) skinId) (\<lambda>gltfSkin.
                     bindA (loadSkin gltf gltfSkin (length gltfNodes)) (\<lambda>skin.
                       returnA (node\<lparr>node_skin := skin\<rparr>))))
               (zip gltfNodes
                  (map (\<lambda>(gltfNode, node).
                          case gn_children gltfNode of
                            None \<Rightarrow> node
                          | Some childrenNodeIds \<Rightarrow>
                              node\<lparr>node_children := node_children node @
                                map (nodeRef (length gltfNodes)) childrenNodeIds\<rparr>)
                       (zip gltfNodes loaded))) w1 = (Inr ns, w')"
    by (auto simp: loadNodes_def Let_def bindA_Inr required_def returnA_Inr throwA_def
          split: option.splits)
  define withChildren where
    "withChildren = map (\<lambda>(gltfNode, node).
                          case gn_children gltfNode of
                            None \<Rightarrow> node
                          | Some childrenNodeIds \<Rightarrow>
                              node\<lparr>node_children := node_children node @
                                map (nodeRef (length gltfNodes)) childrenNodeIds\<rparr>)
                       (zip gltfNodes loaded)"
  define assignSkin where
    "assignSkin = (\<lambda>(gltfNode :: GltfNode, node :: Node).
                 case gn_skin gltfNode of
                   None \<Rightarrow> returnA node
                 | Some skinId \<Rightarrow>
                     bindA (lookup (skins gltf) skinId) (\<lambda>gltfSkin.
                     bindA (loadSkin gltf gltfSkin (length gltfNodes)) (\<lambda>skin.
                       returnA (node\<lparr>node_skin := skin\<rparr>))))"
  from second have second': "forEach assignSkin (zip gltfNodes withChildren) w1 = (Inr ns, w')"
    by (simp only: withChildren_def assignSkin_def)
  from forEach_Inr[OF first] have len1: "length loaded = length gltfNodes"
    and each1: "\<forall>i<length gltfNodes. \<exists>wi wi'.
                  loadNode P gltf (gltfNodes ! i) wi = (Inr (loaded ! i), wi')" by auto
  have loaded_skin: "node_skin (loaded ! i) = None" if "i < length gltfNodes" for i
    using each1 that loadNode_skin by blast
  have lenw: "length withChildren = length gltfNodes"
    using len1 by (simp add: withChildren_def)
  have wc_skin: "node_skin (withChildren ! i) = None" if "i < length gltfNodes" for i
    using that len1 loaded_skin[OF that] by (simp add: withChildren_def split: option.splits)
  from forEach_Inr[OF second'] lenw have len2: "length ns = length gltfNodes"
    and each2: "\<forall>i<length gltfNodes. \<exists>wi wi'.
        assignSkin (gltfNodes ! i, withChildren ! i) wi = (Inr (ns ! i), wi')"
    by auto
  have "node_skin (ns ! i) = None" if i: "i < length ns" for i
  proof -
    from i len2 have i': "i < length gltfNodes" by simp
    from each2 i' obtain wi wi' where
      run: "assignSkin (gltfNodes ! i, withChildren ! i) wi = (Inr (ns ! i), wi')"
      by blast
    show ?thesis
    proof (cases "gn_skin (gltfNodes ! i)")
      case None
      with run wc_skin[OF i'] show ?thesis by (simp add: assignSkin_def returnA_Inr)
    next
      case (Some skinId)
      with run show ?thesis
        by (auto simp: assignSkin_def bindA_Inr returnA_Inr loadSkin_always_identity)
    qed
  qed
  then show ?thesis by (simp add: list_all_length)
qed

lemma extends_metadata:
  "extends w (snd ((case extension of
                      None \<Rightarrow> returnA ()
                    | Some extension \<Rightarrow>
                        bindA (loadFeatureMetadata extension) (\<lambda>featureMetadataLoader.
                          if thenable then register featureMetadataLoader FeatureMetadataThen
                          else throwA TypeError)) w))"
proof -
  have "preserving (case extension of
                      None \<Rightarrow> returnA ()
                    | Some extension \<Rightarrow>
                        bindA (loadFeatureMetadata extension) (\<lambda>featureMetadataLoader.
                          if thenable then register featureMetadataLoader FeatureMetadataThen
                          else throwA TypeError))"
    by (intro preserve)
  then show ?thesis by (simp add: preserving_def)
qed

subsection \<open>Assembly establishes the settlement\<close>

lemma preservingD: "preserving m \<Longrightarrow> m w = (r, w') \<Longrightarrow> extends w w'"
  by (auto simp: preserving_def dest: spec[of _ w])

lemma parse_settlement:
  assumes fresh: "subs w0 = []" "loaders w0 = []" "promise w0 = PromisePending"
      and parsed: "parse P gltf w0 = (Inr (), w')"
  shows "settlement w'"
proof -
  from parsed obtain ns wa sc wb u w2 where
    nodes: "loadNodes P gltf w0 = (Inr ns, wa)" and
    scene: "loadScene gltf ns wa = (Inr sc, wb)" and
    meta: "(case (case gltf_extensions gltf of None \<Rightarrow> None
                  | Some ext \<Rightarrow> EXT_feature_metadata ext) of
              None \<Rightarrow> returnA ()
            | Some extension \<Rightarrow>
                bindA (loadFeatureMetadata extension) (\<lambda>featureMetadataLoader.
                  if featureMetadataLoaderThenable P
                  then register featureMetadataLoader FeatureMetadataThen
                  else throwA TypeError))
             (wb\<lparr>loader_components := Some (Components_new
                  \<lparr>comp_scene := Some sc, comp_nodes := Some ns\<rparr>)\<rparr>) = (Inr u, w2)" and
    final: "w' = settleAll (w2\<lparr>aggregate := Some (loaders w2), aggregate_settled := False\<rparr>)"
    unfolding parse_def Let_def bindA_Inr by auto
  let ?w1 = "wb\<lparr>loader_components := Some (Components_new
                  \<lparr>comp_scene := Some sc, comp_nodes := Some ns\<rparr>)\<rparr>"
  let ?W = "w2\<lparr>aggregate := Some (loaders w2), aggregate_settled := False\<rparr>"
  have e1: "extends w0 wb"
    using preservingD[OF preserving_loadNodes(1) nodes] preservingD[OF preserving_loadScene scene]
    by (rule extends_trans)
  have e2: "extends ?w1 w2"
    using extends_metadata[where w = ?w1 and thenable = "featureMetadataLoaderThenable P"
            and extension = "case gltf_extensions gltf of None \<Rightarrow> None
                  | Some ext \<Rightarrow> EXT_feature_metadata ext"] meta
    by simp
  from e1 fresh have l1: "loaders wb = [0..<length (subs wb)]" "promise wb = PromisePending"
    by (simp_all add: extends_def)
  from e2 obtain k where k: "length (subs w2) = length (subs wb) + k"
    by (auto simp: extends_def dest!: le_Suc_ex)
  from e2 l1 k have l2: "loaders w2 = [0..<length (subs w2)]"
    using upt_add_eq_append[of 0 "length (subs wb)" k] by (simp add: extends_def)
  from e2 l1 have p2: "promise w2 = PromisePending" by (simp add: extends_def)
  from e2 have c2: "loader_components w2 =
      Some (Components_new\<lparr>comp_scene := Some sc, comp_nodes := Some ns\<rparr>)"
    by (simp add: extends_def)
  have skins: "skinsUndefined ?W"
    using c2 loadNodes_skin[OF nodes] by (simp add: skinsUndefined_def)
  show ?thesis
    unfolding final
  proof (rule settleAll_settlement)
    show "aggregate ?W = Some [0..<length (subs ?W)]" using l2 by simp
    show "skinsUndefined ?W" by (rule skins)
    show "settlement ?W" if "aggregate_settled ?W" using that by simp
    show "promise ?W = PromisePending" if "\<not> aggregate_settled ?W" using p2 by simp
  qed
qed

lemma process_settlement:
  assumes fresh: "subs w0 = []" "loaders w0 = []" "promise w0 = PromisePending"
      and ready: "state w0 = PROCESSING" "supportsWebP_initialized w0" "gltfJsonLoader w0 \<noteq> None"
      and parsed: "fst (process P w0) = Inr ()"
  shows "settlement (snd (process P w0)) \<and> gltfJsonLoader (snd (process P w0)) = None"
proof -
  from ready(3) obtain jsonLoader where jl: "gltfJsonLoader w0 = Some jsonLoader" by auto
  from parsed ready jl obtain gltf w' where
    p: "parse P gltf w0 = (Inr (), w')" and
    res: "snd (process P w0) = w'\<lparr>effects := effects w' @ [UnloadGltfJson], gltfJsonLoader := None\<rparr>"
    by (auto simp: process_def bindA_def required_def returnA_def throwA_def
          split: option.splits prod.splits sum.splits)
  have "settlement (w'\<lparr>effects := effects w' @ [UnloadGltfJson], gltfJsonLoader := None\<rparr>)"
    by (rule settlement_mono[OF parse_settlement[OF fresh p]]) (simp_all add: skinsUndefined_def)
  with res show ?thesis by simp
qed

lemma assembled_run:
  assumes fresh: "subs w0 = []" "loaders w0 = []" "promise w0 = PromisePending"
      and ready: "state w0 = PROCESSING" "supportsWebP_initialized w0" "gltfJsonLoader w0 \<noteq> None"
      and parsed: "fst (process P w0) = Inr ()"
      and later: "list_all afterAssembly events"
  shows "settlement (run P events (snd (process P w0)))"
  using process_settlement[OF fresh ready parsed] run_settlement[OF _ _ later] by blast

lemma tinyLoaded_ready:
  "subs tinyLoaded = []" "loaders tinyLoaded = []" "promise tinyLoaded = PromisePending"
  "state tinyLoaded = PROCESSING" "supportsWebP_initialized tinyLoaded"
  "gltfJsonLoader tinyLoaded \<noteq> None" "fst (process samplePlatform tinyLoaded) = Inr ()"
  by (simp_all add: tiny_process) (simp_all add: tinyLoaded_eval GltfLoader_new_def)

lemma tinyAssembled_eval:
  "tinyAssembled = tinyLoaded
       \<lparr>gltfJsonLoader := None, loaders := [0],
        loader_components := Some \<lparr>comp_scene = Some \<lparr>scene_nodes = [None]\<rparr>,
          comp_nodes = Some [Node_new\<lparr>node_primitives :=
            [Primitive_new\<lparr>prim_attributes := [0], prim_primitiveType := Some 4\<rparr>]\<rparr>],
          comp_featureMetadata = None\<rparr>,
        subs := [(VertexBufferRequest (Some 0) None ''POSITION'', Pending)],
        conts := [(0, VertexAttributeThen 0 None ''POSITION'')],
        aggregate := Some [0],
        attributes :=
          [Attribute_new
             \<lparr>attr_semantic := Some ''POSITION'',
              attr_constant := Some (Unpacked Cartesian3 (replicate 3 (Some 0))),
              attr_componentDatatype := Some 5126, attr_normalized := Some False,
              attr_count := Some 24, attr_type := Some VEC3, attr_byteOffset := Some 12,
              attr_byteStride := Some 12\<rparr>],
        effects := [UnloadGltfJson]\<rparr>"
  by (simp add: tinyAssembled_def tiny_process)

subsection \<open>Completion\<close>

text \<open>
  Claim C1, as amended. Take a new loader (no sub-loader yet, public promise pending)
  whose document has arrived (state PROCESSING, WebP detection initialised, document
  loader held), and let its first \<open>process\<close> assemble the components without raising.
  After any later events (sub-loaders resolving or rejecting, further \<open>process\<close> calls,
  \<open>unload\<close>, \<open>destroy\<close>):
  the public promise is resolved only if every spawned sub-loader has resolved, and
  rejected only if one has rejected, so a partly populated scene graph is never handed
  over as a success; and as long as the loader has not been destroyed, the promise is
  resolved and the state READY as soon as every sub-loader has resolved, and the promise
  is rejected and the state FAILED as soon as one has rejected.
  A load whose assembly raises (\<open>parse\<close> then never reaches \<open>when.all\<close>) is outside this
  statement, and so is a sub-loader that settles while the assembly is still running.
\<close>

theorem completion_iff_all_ready_unless_destroyed:
  assumes fresh: "subs w0 = []" "loaders w0 = []" "promise w0 = PromisePending"
      and ready: "state w0 = PROCESSING" "supportsWebP_initialized w0" "gltfJsonLoader w0 \<noteq> None"
      and parsed: "fst (process P w0) = Inr ()"
      and later: "list_all afterAssembly events"
  shows "let w = run P events (snd (process P w0)) in
         (promise w = PromiseResolved \<longrightarrow> allResolved w) \<and>
         (isRejection (promise w) \<longrightarrow> anyRejected w) \<and>
         (\<not> destroyed w \<longrightarrow>
            (allResolved w \<longrightarrow> promise w = PromiseResolved \<and> state w = READY) \<and>
            (anyRejected w \<longrightarrow> isRejection (promise w) \<and> state w = FAILED))"
proof -
  note D = settlementD[OF assembled_run[OF fresh ready parsed later]]
  show ?thesis
    unfolding Let_def
    using D(2) D(4) D(5) D(6) D(7) by blast
qed

theorem completion_iff_all_ready_unless_destroyed_witness:
  "allResolved (run samplePlatform
      [LoaderResolved 0 sampleOutput, LoaderResolved 1 sampleOutput,
       LoaderResolved 2 sampleOutput] sampleAssembled) \<and>
   promise (run samplePlatform
      [LoaderResolved 0 sampleOutput, LoaderResolved 1 sampleOutput,
       LoaderResolved 2 sampleOutput] sampleAssembled) = PromiseResolved \<and>
   state (run samplePlatform
      [LoaderResolved 0 sampleOutput, LoaderResolved 1 sampleOutput,
       LoaderResolved 2 sampleOutput] sampleAssembled) = READY \<and>
   anyRejected (run samplePlatform
      [LoaderResolved 0 sampleOutput, LoaderRejected 1 sampleCause,
       LoaderResolved 2 sampleOutput] sampleAssembled) \<and>
   isRejection (promise (run samplePlatform
      [LoaderResolved 0 sampleOutput, LoaderRejected 1 sampleCause,
       LoaderResolved 2 sampleOutput] sampleAssembled)) \<and>
   state (run samplePlatform
      [LoaderResolved 0 sampleOutput, LoaderRejected 1 sampleCause,
       LoaderResolved 2 sampleOutput] sampleAssembled) = FAILED"
proof -
  have later: "list_all afterAssembly
      [LoaderResolved 0 sampleOutput, LoaderResolved 1 sampleOutput,
       LoaderResolved 2 sampleOutput]"
    "list_all afterAssembly
      [LoaderResolved 0 sampleOutput, LoaderRejected 1 sampleCause,
       LoaderResolved 2 sampleOutput]"
    by simp_all
  from completion_iff_all_ready_unless_destroyed[OF sampleLoaded_ready sample_process later(1),
         folded sampleAssembled_def]
       completion_iff_all_ready_unless_destroyed[OF sampleLoaded_ready sample_process later(2),
         folded sampleAssembled_def]
       sampleAllResolved sampleOneRejected
  show ?thesis by (simp add: Let_def)
qed

theorem all_ready_but_destroyed_not_resolved:
  "allResolved tinyDestroyedThenResolved \<and>
   promise tinyDestroyedThenResolved = PromisePending \<and>
   state tinyDestroyedThenResolved = PROCESSING"
  by (simp add: tinyDestroyedThenResolved_def tinyAssembled_eval tinyLoaded_eval event_defs
        GltfLoader_new_def allResolved_def)

subsection \<open>Node skins\<close>

text \<open>
  Claim C10. In the components of a load (a new loader whose first \<open>process\<close> assembles
  them without raising), at every later moment and so on completion, every node's skin
  is undefined, whether or not the document declares a skin for the node:
  \<open>loadSkin\<close> returns no value and \<open>loadNodes\<close> assigns that result to the node.
\<close>

theorem node_skins_undefined:
  assumes fresh: "subs w0 = []" "loaders w0 = []" "promise w0 = PromisePending"
      and ready: "state w0 = PROCESSING" "supportsWebP_initialized w0" "gltfJsonLoader w0 \<noteq> None"
      and parsed: "fst (process P w0) = Inr ()"
      and later: "list_all afterAssembly events"
  shows "\<exists>c ns. loader_components (run P events (snd (process P w0))) = Some c \<and>
           comp_nodes c = Some ns \<and> (\<forall>n \<in> set ns. node_skin n = None)"
  using settlementD(8)[OF assembled_run[OF fresh ready parsed later]]
  by (auto simp: skinsUndefined_def list_all_iff split: option.splits)

theorem node_skins_undefined_witness:
  "gn_skin sampleNode = Some 0 \<and> gltf_nodes sampleGltf = Some [sampleNode, emptyNode] \<and>
   (\<exists>c ns. loader_components
              (run samplePlatform
                 [LoaderResolved 0 sampleOutput, LoaderResolved 1 sampleOutput,
                  LoaderResolved 2 sampleOutput]
                 (snd (process samplePlatform sampleLoaded))) = Some c \<and>
      comp_nodes c = Some ns \<and> (\<forall>n \<in> set ns. node_skin n = None))"
proof -
  have later: "list_all afterAssembly
     [LoaderResolved 0 sampleOutput, LoaderResolved 1 sampleOutput, LoaderResolved 2 sampleOutput]"
    by simp
  from node_skins_undefined[OF sampleLoaded_ready sample_process later]
  show ?thesis by (simp add: sampleNode_def sampleGltf_def)
qed

subsection \<open>Failure\<close>

lemma firstRejected_Some:
  "firstRejected w hs = Some cause \<Longrightarrow> \<exists>h \<in> set hs. statusOf w h = Rejected cause"
  by (induction hs) (auto split: Status.splits)

lemma handleError_effects:
  "effects (handleError w error) =
     effects w @ (if gltfJsonLoader w = None then [] else [UnloadGltfJson]) @
       map UnloadLoader (loaders w) @
       (if promise w = PromisePending
        then [PromiseReject (RuntimeError ''Failed to load glTF'' error)] else [])"
  by (simp add: handleError_def unload_def promise_reject_def getError_def Let_def)

lemma firstRejected_setRejected:
  "firstRejected w hs = None \<Longrightarrow> h \<in> set hs \<Longrightarrow> h < length (subs w) \<Longrightarrow>
     firstRejected (setStatus h (Rejected cause) w) hs = Some cause"
proof (induction hs)
  case Nil
  then show ?case by simp
next
  case (Cons a hs)
  show ?case
  proof (cases "a = h")
    case True
    with Cons.prems show ?thesis by (simp add: statusOf_def setStatus_def)
  next
    case False
    from Cons.prems(1) have nr: "\<not> isRejected (statusOf w a)" and rest: "firstRejected w hs = None"
      by (auto split: Status.splits)
    from False Cons.prems(3) have same: "statusOf (setStatus h (Rejected cause) w) a = statusOf w a"
      by (auto simp: statusOf_def setStatus_def)
    from False Cons.prems(2) have "h \<in> set hs" by simp
    from Cons.IH[OF rest this Cons.prems(3)] nr same show ?thesis
      by (cases "statusOf w a") simp_all
  qed
qed

lemma failure_rejects_unless_destroyed:
  assumes alive: "\<not> destroyed w" and pending: "promise w = PromisePending"
  shows "json_status w = Some Pending \<Longrightarrow>
           promise (step P (JsonRejected cause) w) =
             PromiseRejected (getError ''Failed to load glTF'' cause)"
    and "h < length (subs w) \<Longrightarrow> statusOf w h = Pending \<Longrightarrow> aggregate w = Some hs \<Longrightarrow>
         h \<in> set hs \<Longrightarrow> \<not> aggregate_settled w \<Longrightarrow> firstRejected w hs = None \<Longrightarrow>
           promise (step P (LoaderRejected h cause) w) =
             PromiseRejected (getError ''Failed to load glTF'' cause)"
proof -
  show "promise (step P (JsonRejected cause) w) =
          PromiseRejected (getError ''Failed to load glTF'' cause)"
    if "json_status w = Some Pending"
    using that alive pending
    by (simp add: jsonRejected_def jsonOtherwise_def handleError_fields getError_def)
  show "promise (step P (LoaderRejected h cause) w) =
          PromiseRejected (getError ''Failed to load glTF'' cause)"
    if h: "h < length (subs w)" "statusOf w h = Pending" and agg: "aggregate w = Some hs"
      and mem: "h \<in> set hs" and uns: "\<not> aggregate_settled w" and none: "firstRejected w hs = None"
  proof -
    let ?w1 = "setStatus h (Rejected cause) w"
    have "settleAll ?w1 = allOtherwise cause (?w1\<lparr>aggregate_settled := True\<rparr>)"
      using agg uns firstRejected_setRejected[OF none mem h(1), of cause]
      by (simp add: settleAll_def setStatus_fields)
    then show ?thesis
      using h alive pending
      by (simp add: loaderRejected_def allOtherwise_fields setStatus_fields getError_def)
  qed
qed

lemma rejection_follows_unload:
  assumes pending: "promise w = PromisePending"
      and failure: "e = JsonRejected cause \<or> e = LoaderRejected h cause"
      and rejected: "promise (step P e w) = PromiseRejected error"
  shows "gltfJsonLoader (step P e w) = None \<and> loaders (step P e w) = [] \<and>
         state (step P e w) = FAILED \<and>
         effects (step P e w) =
           effects w @ (if gltfJsonLoader w = None then [] else [UnloadGltfJson]) @
             map UnloadLoader (loaders w) @ [PromiseReject error] \<and>
         (\<exists>c. error = getError ''Failed to load glTF'' c \<and>
               (c = cause \<or> (\<exists>h'. statusOf w h' = Rejected c)))"
  using failure
proof
  assume e: "e = JsonRejected cause"
  let ?w1 = "w\<lparr>json_status := Some (Rejected cause)\<rparr>"
  from rejected pending e have act: "json_status w = Some Pending" "\<not> destroyed w"
    by (auto simp: jsonRejected_def jsonOtherwise_def split: if_splits)
  then have eq: "step P e w = handleError ?w1 cause"
    using e by (simp add: jsonRejected_def jsonOtherwise_def)
  from rejected pending have err: "error = RuntimeError ''Failed to load glTF'' cause"
    unfolding eq by (simp add: handleError_fields)
  show ?thesis
    unfolding eq using pending err
    by (simp add: handleError_fields handleError_effects getError_def)
next
  assume e: "e = LoaderRejected h cause"
  let ?w1 = "setStatus h (Rejected cause) w"
  from rejected pending e have act: "h < length (subs w)" "statusOf w h = Pending"
    by (auto simp: loaderRejected_def split: if_splits)
  then have eq1: "step P e w = settleAll ?w1"
    using e by (simp add: loaderRejected_def)
  have p1: "promise ?w1 = PromisePending" using pending by (simp add: setStatus_fields)
  from rejected p1 obtain hs c where
    agg: "aggregate ?w1 = Some hs" and uns: "\<not> aggregate_settled ?w1" and
    first: "firstRejected ?w1 hs = Some c" and alive: "\<not> destroyed ?w1"
    unfolding eq1
    by (auto simp: settleAll_def allThen_def allOtherwise_def promise_resolve_def
          split: option.splits if_splits)
  have eq: "step P e w = handleError (?w1\<lparr>aggregate_settled := True\<rparr>) c"
    unfolding eq1 using agg uns first alive by (simp add: settleAll_def allOtherwise_def)
  from rejected p1 have err: "error = RuntimeError ''Failed to load glTF'' c"
    unfolding eq by (simp add: handleError_fields)
  from firstRejected_Some[OF first] obtain h' where "statusOf ?w1 h' = Rejected c" by blast
  with act have origin: "c = cause \<or> (\<exists>h'. statusOf w h' = Rejected c)"
    by (cases "h' = h") (auto simp: statusOf_def setStatus_def split: if_splits)
  show ?thesis
    unfolding eq using p1 err origin
    by (simp add: handleError_fields handleError_effects getError_def setStatus_def)
qed

lemma pending_alive_unsettled:
  assumes inv: "settlement w" and alive: "\<not> destroyed w" and pending: "promise w = PromisePending"
  shows "aggregate w = Some [0..<length (subs w)]" "\<not> aggregate_settled w"
        "firstRejected w [0..<length (subs w)] = None"
proof -
  note D = settlementD[OF inv]
  show "aggregate w = Some [0..<length (subs w)]" by (rule D(1))
  show uns: "\<not> aggregate_settled w"
  proof
    assume s: "aggregate_settled w"
    with D(2) have "anyRejected w \<or> allResolved w" by simp
    then show False
      using D(6)[OF alive s] D(7)[OF alive s] pending by (auto simp: isRejection_def)
  qed
  with D(2) have "\<not> anyRejected w" by simp
  then show "firstRejected w [0..<length (subs w)] = None"
    by (simp add: firstRejected_upto)
qed

text \<open>
  Claim C2, as amended. Two failures, each reaching a loader that is not destroyed and
  whose public promise is still pending.
  The document fetch fails while it is pending (the theorem's first part, for any such
  loader \<open>w'\<close>).
  Or a sub-loader that is still pending fails (the second part) in a load such as that
  of C1: a new loader (no sub-loader yet, public promise pending) whose document has
  arrived (state PROCESSING, WebP detection initialised, document loader held), whose
  first \<open>process\<close> has assembled the components without raising, followed by any later
  events (sub-loaders resolving or rejecting, further \<open>process\<close> calls, \<open>unload\<close>,
  \<open>destroy\<close>); the promise being still pending on a loader not destroyed, no sub-loader
  has failed before, so this failure is the first.
  In both cases the loader first unloads in full and then rejects: the effects of the
  step are the release of the document loader (if still held), the unload of every
  sub-loader held, and then the rejection, after which the loader holds neither and its
  state is FAILED. The rejection carries the top-level error with the message
  \<open>Failed to load glTF\<close> that wraps the cause of the failure.
  A destroyed loader rejects nothing. A load whose assembly raises (\<open>parse\<close> then never
  reaches \<open>when.all\<close>, and nothing listens to its sub-loaders) is outside this
  statement, and so is a sub-loader that fails while the assembly is still running.
\<close>

theorem failure_unloads_then_rejects_unless_destroyed:
  assumes fresh: "subs w0 = []" "loaders w0 = []" "promise w0 = PromisePending"
      and ready: "state w0 = PROCESSING" "supportsWebP_initialized w0" "gltfJsonLoader w0 \<noteq> None"
      and parsed: "fst (process P w0) = Inr ()"
      and later: "list_all afterAssembly events"
  shows "(\<not> destroyed w' \<and> promise w' = PromisePending \<and> json_status w' = Some Pending \<longrightarrow>
            unloadsThenRejects w' cause (step P (JsonRejected cause) w')) \<and>
         (let w = run P events (snd (process P w0)) in
            \<not> destroyed w \<and> promise w = PromisePending \<and>
            h < length (subs w) \<and> statusOf w h = Pending \<longrightarrow>
              unloadsThenRejects w cause (step P (LoaderRejected h cause) w))"
proof (intro conjI impI; (unfold Let_def)?; (intro impI)?)
  assume a: "\<not> destroyed w' \<and> promise w' = PromisePending \<and> json_status w' = Some Pending"
  then have rejected: "promise (step P (JsonRejected cause) w') =
      PromiseRejected (getError ''Failed to load glTF'' cause)"
    using failure_rejects_unless_destroyed(1)[where w = w' and cause = cause and P = P] by blast
  from a have pending: "promise w' = PromisePending" by simp
  have "gltfJsonLoader (step P (JsonRejected cause) w') = None \<and>
        loaders (step P (JsonRejected cause) w') = [] \<and>
        state (step P (JsonRejected cause) w') = FAILED \<and>
        effects (step P (JsonRejected cause) w') =
          effects w' @ (if gltfJsonLoader w' = None then [] else [UnloadGltfJson]) @
            map UnloadLoader (loaders w') @
            [PromiseReject (getError ''Failed to load glTF'' cause)] \<and>
        (\<exists>c. getError ''Failed to load glTF'' cause = getError ''Failed to load glTF'' c \<and>
               (c = cause \<or> (\<exists>h'. statusOf w' h' = Rejected c)))"
    by (rule rejection_follows_unload[OF pending _ rejected]) simp
  with rejected show "unloadsThenRejects w' cause (step P (JsonRejected cause) w')"
    by (simp add: unloadsThenRejects_def)
next
  let ?w = "run P events (snd (process P w0))"
  assume a: "\<not> destroyed ?w \<and> promise ?w = PromisePending \<and>
             h < length (subs ?w) \<and> statusOf ?w h = Pending"
  then have alive: "\<not> destroyed ?w" and pending: "promise ?w = PromisePending"
    and h: "h < length (subs ?w)" "statusOf ?w h = Pending" by simp_all
  note U = pending_alive_unsettled[OF assembled_run[OF fresh ready parsed later] alive pending]
  have mem: "h \<in> set [0..<length (subs ?w)]" using h(1) by simp
  have rejected: "promise (step P (LoaderRejected h cause) ?w) =
      PromiseRejected (getError ''Failed to load glTF'' cause)"
    by (rule failure_rejects_unless_destroyed(2)[OF alive pending h U(1) mem U(2) U(3)])
  have "gltfJsonLoader (step P (LoaderRejected h cause) ?w) = None \<and>
        loaders (step P (LoaderRejected h cause) ?w) = [] \<and>
        state (step P (LoaderRejected h cause) ?w) = FAILED \<and>
        effects (step P (LoaderRejected h cause) ?w) =
          effects ?w @ (if gltfJsonLoader ?w = None then [] else [UnloadGltfJson]) @
            map UnloadLoader (loaders ?w) @
            [PromiseReject (getError ''Failed to load glTF'' cause)] \<and>
        (\<exists>c. getError ''Failed to load glTF'' cause = getError ''Failed to load glTF'' c \<and>
               (c = cause \<or> (\<exists>h'. statusOf ?w h' = Rejected c)))"
    by (rule rejection_follows_unload[OF pending _ rejected]) simp
  with rejected show "unloadsThenRejects ?w cause (step P (LoaderRejected h cause) ?w)"
    by (simp add: unloadsThenRejects_def)
qed

theorem failure_unloads_then_rejects_unless_destroyed_witness:
  "promise (step samplePlatform (JsonRejected sampleCause) (load GltfLoader_new)) =
     PromiseRejected (RuntimeError ''Failed to load glTF'' sampleCause) \<and>
   effects (step samplePlatform (JsonRejected sampleCause) (load GltfLoader_new)) =
     [UnloadGltfJson, PromiseReject (RuntimeError ''Failed to load glTF'' sampleCause)] \<and>
   state (step samplePlatform (JsonRejected sampleCause) (load GltfLoader_new)) = FAILED \<and>
   promise (step samplePlatform (LoaderRejected 1 sampleCause) sampleFirstResolved) =
     PromiseRejected (RuntimeError ''Failed to load glTF'' sampleCause) \<and>
   effects (step samplePlatform (LoaderRejected 1 sampleCause) sampleFirstResolved) =
     [UnloadGltfJson, UnloadLoader 0, UnloadLoader 1, UnloadLoader 2,
      PromiseReject (RuntimeError ''Failed to load glTF'' sampleCause)] \<and>
   loaders (step samplePlatform (LoaderRejected 1 sampleCause) sampleFirstResolved) = [] \<and>
   gltfJsonLoader (step samplePlatform (LoaderRejected 1 sampleCause) sampleFirstResolved) = None \<and>
   state (step samplePlatform (LoaderRejected 1 sampleCause) sampleFirstResolved) = FAILED"
proof -
  have later: "list_all afterAssembly [LoaderResolved 0 sampleOutput]" by simp
  have document: "\<not> destroyed (load GltfLoader_new)" "promise (load GltfLoader_new) = PromisePending"
    "json_status (load GltfLoader_new) = Some Pending" "effects (load GltfLoader_new) = []"
    "loaders (load GltfLoader_new) = []" "gltfJsonLoader (load GltfLoader_new) \<noteq> None"
    by (simp_all add: load_def GltfLoader_new_def)
  from failure_unloads_then_rejects_unless_destroyed[OF sampleLoaded_ready sample_process later,
         of "load GltfLoader_new" sampleCause 1,
         folded sampleAssembled_def, folded sampleFirstResolved_def]
       document sampleFirstResolved_fields
  show ?thesis by (simp add: unloadsThenRejects_def getError_def Let_def)
qed

theorem failure_of_destroyed_loader_rejects_nothing:
  "statusOf (step samplePlatform (LoaderRejected 0 sampleCause) tinyDestroyed) 0 =
     Rejected sampleCause \<and>
   promise (step samplePlatform (LoaderRejected 0 sampleCause) tinyDestroyed) = PromisePending \<and>
   state (step samplePlatform (LoaderRejected 0 sampleCause) tinyDestroyed) = PROCESSING \<and>
   effects (step samplePlatform (LoaderRejected 0 sampleCause) tinyDestroyed) =
     effects tinyDestroyed"
  by (simp add: tinyDestroyed_def tinyAssembled_eval tinyLoaded_eval event_defs
        GltfLoader_new_def Let_def)


end
